theory Spec2Isabelle
  imports Complex_Main "HOL-Library.Multiset"
begin

text \<open>
  A model of the large-trade dashboard: the TTL cache (cache.js), the HTTP client with
  retry (api.js), the Binance adapter (binance.js), the per-asset facades and the
  controller (app.js). Asynchronous functions are state transformers on a world made of
  the cache storage, the clock and the trace of network requests; a promise is its
  settled result; the network is a parameter that answers each request.
\<close>

section \<open>JavaScript values\<close>

text \<open>
  A JavaScript number is a double: a finite value (always a rational), one of the two
  infinities, or NaN. The comparisons and the sign of a difference of two doubles are
  those of the values they denote, so a finite number is modelled by its rational value;
  \<open>-0\<close> is identified with \<open>0\<close> (they compare equal and are both falsy).
\<close>

datatype num = NaN | Fin rat | PosInf | NegInf

text \<open>\<open>a < b\<close> on numbers: false as soon as one side is NaN.\<close>

fun num_lt :: "num \<Rightarrow> num \<Rightarrow> bool" where
  "num_lt (Fin a) (Fin b) = (a < b)"
| "num_lt NegInf (Fin b) = True"
| "num_lt NegInf PosInf = True"
| "num_lt (Fin a) PosInf = True"
| "num_lt _ _ = False"

text \<open>\<open>a >= b\<close> on numbers: again false as soon as one side is NaN.\<close>

definition num_ge :: "num \<Rightarrow> num \<Rightarrow> bool" where
  "num_ge a b = (a \<noteq> NaN \<and> b \<noteq> NaN \<and> \<not> num_lt a b)"

text \<open>\<open>a - b\<close> on numbers.\<close>

fun num_sub :: "num \<Rightarrow> num \<Rightarrow> num" where
  "num_sub NaN _ = NaN"
| "num_sub _ NaN = NaN"
| "num_sub (Fin a) (Fin b) = Fin (a - b)"
| "num_sub PosInf PosInf = NaN"
| "num_sub NegInf NegInf = NaN"
| "num_sub PosInf _ = PosInf"
| "num_sub NegInf _ = NegInf"
| "num_sub (Fin a) PosInf = NegInf"
| "num_sub (Fin a) NegInf = PosInf"

text \<open>Truthiness of a number: \<open>0\<close> and NaN are falsy.\<close>

definition num_truthy :: "num \<Rightarrow> bool" where
  "num_truthy n = (n \<noteq> NaN \<and> n \<noteq> Fin 0)"

text \<open>The values a parsed JSON payload can hold, and \<open>undefined\<close>.\<close>

datatype jsval =
    JUndefined
  | JNull
  | JBool bool
  | JNum num
  | JStr string
  | JArr "jsval list"
  | JObj "(string \<times> jsval) list"

text \<open>
  The errors of the program: the timeout and HTTP-status errors raised by \<open>API.fetch\<close>,
  a rejection of the underlying \<open>fetch\<close>, a body that is not JSON, the adapter's
  unsupported-chain error, and the TypeError of the language (a property read on
  \<open>null\<close> or \<open>undefined\<close>, iterating a value that is not iterable).
\<close>

datatype error =
    Timeout
  | HttpError nat
  | NetworkError
  | ParseFailure
  | UnsupportedAsset string
  | TypeError

text \<open>
  \<open>v.name\<close> for a property name that no built-in prototype defines (\<open>price\<close>,
  \<open>qty\<close>, \<open>quoteQty\<close>, \<open>time\<close>, \<open>id\<close>, \<open>isBuyerMaker\<close>): a TypeError on
  \<open>null\<close> and \<open>undefined\<close>, the field of an object, \<open>undefined\<close> otherwise.
\<close>

fun getProp :: "jsval \<Rightarrow> string \<Rightarrow> error + jsval" where
  "getProp JUndefined name = Inl TypeError"
| "getProp JNull name = Inl TypeError"
| "getProp (JObj fields) name =
     Inr (case map_of fields name of None \<Rightarrow> JUndefined | Some v \<Rightarrow> v)"
| "getProp _ name = Inr JUndefined"

text \<open>Truthiness of a value.\<close>

fun js_truthy :: "jsval \<Rightarrow> bool" where
  "js_truthy JUndefined = False"
| "js_truthy JNull = False"
| "js_truthy (JBool b) = b"
| "js_truthy (JNum n) = num_truthy n"
| "js_truthy (JStr s) = (s \<noteq> [])"
| "js_truthy (JArr xs) = True"
| "js_truthy (JObj fields) = True"

section \<open>The canonical transaction record\<close>

text \<open>
  The object literal pushed by \<open>Binance.processTrades\<close>. The fields \<open>id\<close>,
  \<open>from\<close> and \<open>to\<close> are \<open>tx_id\<close>, \<open>tx_from\<close> and \<open>tx_to\<close> here; a
  \<open>Date\<close> is its time value in milliseconds (NaN for an invalid date).
\<close>

record transaction =
  tx_id :: string
  hash :: string
  chain :: string
  network :: "string option"
  amountNative :: num
  amountUsd :: num
  tx_from :: string
  tx_to :: string
  feeNative :: num
  feeUsd :: num
  timestamp :: num
  blockHeight :: num
  blockHash :: string
  confirmations :: num
  explorerUrl :: string
  isExchangeTrade :: bool
  price :: num

text \<open>
  The values that flow through the cache and out of the adapter: the program stores
  prices (numbers) and arrays of transactions.
\<close>

datatype "value" = VNum num | VTxs "transaction list"

text \<open>Truthiness of such a value: an array is truthy, also when empty.\<close>

fun truthy :: "value \<Rightarrow> bool" where
  "truthy (VNum n) = num_truthy n"
| "truthy (VTxs xs) = True"

section \<open>The world: cache storage, clock and network trace\<close>

text \<open>
  \<open>Cache._storage\<close> maps a key to an item \<open>{value, expiry}\<close>. The store is a map on
  own properties (the keys of this program all start with \<open>binance_\<close>; properties
  inherited from \<open>Object.prototype\<close> are outside the model). Times are integers,
  milliseconds as \<open>Date.now()\<close> returns them.
\<close>

record cache_item =
  item_value :: "value"
  expiry :: int

type_synonym options = "(string \<times> string) list"

datatype event = Fetch string options | Delay int

record world =
  storage :: "string \<Rightarrow> cache_item option"
  clock :: int
  trace :: "event list"

subsection \<open>Cache\<close>

definition defaultTTL :: int where
  "defaultTTL = 5 * 60 * 1000"

text \<open>
  \<open>Cache.set\<close>. Every caller in this program passes the time to live; when it is
  omitted the language fills in \<open>_defaultTTL\<close>.
\<close>

definition Cache_set :: "string \<Rightarrow> value \<Rightarrow> int \<Rightarrow> world \<Rightarrow> world" where
  "Cache_set key v ttl w =
     w\<lparr>storage := (storage w)(key \<mapsto> \<lparr>item_value = v, expiry = clock w + ttl\<rparr>)\<rparr>"

text \<open>\<open>Cache.get\<close>: \<open>None\<close> is the \<open>null\<close> it returns for an absent or expired key.\<close>

definition Cache_get :: "string \<Rightarrow> world \<Rightarrow> value option \<times> world" where
  "Cache_get key w =
     (case storage w key of
        None \<Rightarrow> (None, w)
      | Some item \<Rightarrow>
          if clock w > expiry item
          then (None, w\<lparr>storage := (storage w)(key := None)\<rparr>)
          else (Some (item_value item), w))"

definition Cache_delete :: "string \<Rightarrow> world \<Rightarrow> world" where
  "Cache_delete key w = w\<lparr>storage := (storage w)(key := None)\<rparr>"

definition Cache_clear :: "world \<Rightarrow> world" where
  "Cache_clear w = w\<lparr>storage := (\<lambda>k. None)\<rparr>"

definition Cache_has :: "string \<Rightarrow> world \<Rightarrow> bool \<times> world" where
  "Cache_has key w = (case Cache_get key w of (r, w') \<Rightarrow> (r \<noteq> None, w'))"

section \<open>Built-ins of the engine\<close>

text \<open>
  Three built-ins whose results depend on the text of a string are parameters of the
  model: the numeric-prefix parse that \<open>parseFloat\<close> performs on a string, the
  text \<open>ToString\<close> gives, and the time value of \<open>new Date(v)\<close>; when they throw
  is fixed below. Every theorem holds for every such engine.
\<close>

record engine =
  strToNum :: "string \<Rightarrow> num"
  toStr :: "jsval \<Rightarrow> string"
  dateValue :: "jsval \<Rightarrow> num"

text \<open>
  \<open>ToString(v)\<close> raises a TypeError for an object with an own property \<open>toString\<close>:
  a parsed payload holds no function, so that property is not callable, and \<open>valueOf\<close>
  gives the object back. It raises it for an array one of whose elements does, since
  \<open>join\<close> converts every element (\<open>null\<close> and \<open>undefined\<close> become the empty string).
  The conversion to a primitive in \<open>new Date(v)\<close> raises it in the same cases.
\<close>

fun toStringThrows :: "jsval \<Rightarrow> bool" where
  "toStringThrows (JObj props) = (map_of props ''toString'' \<noteq> None)"
| "toStringThrows (JArr xs) = list_ex toStringThrows xs"
| "toStringThrows _ = False"

text \<open>
  The number \<open>parseFloat(v)\<close> returns when \<open>ToString(v)\<close> succeeds: the longest
  numeric prefix of that string. A number prints and parses back to itself;
  \<open>undefined\<close>, \<open>null\<close>, booleans and plain objects print as words with no numeric
  prefix; an array prints its elements joined by commas, so only its first element counts
  (and an empty array prints as the empty string).
\<close>

fun numericPrefix :: "engine \<Rightarrow> jsval \<Rightarrow> num" where
  "numericPrefix E (JNum n) = n"
| "numericPrefix E (JStr s) = strToNum E s"
| "numericPrefix E (JArr (x # xs)) = numericPrefix E x"
| "numericPrefix E _ = NaN"

definition parseFloat :: "engine \<Rightarrow> jsval \<Rightarrow> error + num" where
  "parseFloat E v = (if toStringThrows v then Inl TypeError else Inr (numericPrefix E v))"

text \<open>The text of \<open>${v}\<close> in a template literal, and the time value of \<open>new Date(v)\<close>.\<close>

definition templateText :: "engine \<Rightarrow> jsval \<Rightarrow> error + string" where
  "templateText E v = (if toStringThrows v then Inl TypeError else Inr (toStr E v))"

definition newDate :: "engine \<Rightarrow> jsval \<Rightarrow> error + num" where
  "newDate E v = (if toStringThrows v then Inl TypeError else Inr (dateValue E v))"

text \<open>Decimal text of an integer, as a template literal prints an integral number.\<close>

fun show_nat :: "nat \<Rightarrow> string" where
  "show_nat n =
     (if n < 10 then [''0123456789'' ! n]
      else show_nat (n div 10) @ [''0123456789'' ! (n mod 10)])"

declare show_nat.simps [simp del]

definition show_int :: "int \<Rightarrow> string" where
  "show_int i = (if i < 0 then CHR ''-'' # show_nat (nat (- i)) else show_nat (nat i))"

text \<open>The values a \<open>for ... of\<close> loop draws from a payload.\<close>

fun iterate :: "jsval \<Rightarrow> error + jsval list" where
  "iterate (JArr xs) = Inr xs"
| "iterate (JStr s) = Inr (map (\<lambda>c. JStr [c]) s)"
| "iterate _ = Inl TypeError"

text \<open>Sequencing of steps that may throw.\<close>

definition thenE :: "error + 'a \<Rightarrow> ('a \<Rightarrow> error + 'b) \<Rightarrow> error + 'b" where
  "thenE r f = (case r of Inl e \<Rightarrow> Inl e | Inr x \<Rightarrow> f x)"

subsection \<open>Array.prototype.sort and slice\<close>

text \<open>
  \<open>xs.sort(cmp)\<close> is stable; a comparator result that is NaN counts as \<open>0\<close>. For a
  consistent comparator the result is the one stable sorted permutation, computed here by
  inserting from the right: an element moves behind \<open>y\<close> only when \<open>cmp x y > 0\<close>.
  (For an inconsistent comparator the language leaves the order to the engine.)
\<close>

fun sort_insert :: "('a \<Rightarrow> 'a \<Rightarrow> num) \<Rightarrow> 'a \<Rightarrow> 'a list \<Rightarrow> 'a list" where
  "sort_insert cmp x [] = [x]"
| "sort_insert cmp x (y # ys) =
     (if num_lt (Fin 0) (cmp x y) then y # sort_insert cmp x ys else x # y # ys)"

definition js_sort :: "('a \<Rightarrow> 'a \<Rightarrow> num) \<Rightarrow> 'a list \<Rightarrow> 'a list" where
  "js_sort cmp xs = foldr (sort_insert cmp) xs []"

text \<open>\<open>xs.slice(0, end)\<close>: a negative \<open>end\<close> counts from the end of the array.\<close>

definition slice0 :: "'a list \<Rightarrow> int \<Rightarrow> 'a list" where
  "slice0 xs end =
     take (if end < 0 then nat (int (length xs) + end) else nat end) xs"

section \<open>HTTP client with retry (api.js)\<close>

text \<open>
  What the browser's \<open>fetch\<close> does with a request: it rejects, or it resolves to a
  response with a status and a body (\<open>None\<close> when the body is not JSON). The network
  answers the \<open>k\<close>-th request of a run with a latency in milliseconds and an outcome.
\<close>

datatype outcome = Rejected | Response nat "jsval option"

type_synonym network = "nat \<Rightarrow> string \<Rightarrow> options \<Rightarrow> nat \<times> outcome"

fun is_Fetch :: "event \<Rightarrow> bool" where
  "is_Fetch (Fetch url opts) = True"
| "is_Fetch (Delay ms) = False"

definition fetch_count :: "world \<Rightarrow> nat" where
  "fetch_count w = length (filter is_Fetch (trace w))"

definition config_timeout :: int where
  "config_timeout = 10000"

definition retryAttempts :: int where
  "retryAttempts = 3"

definition retryDelay :: int where
  "retryDelay = 1000"

text \<open>
  \<open>API.fetch\<close>: the request is aborted when the timer fires first (a timeout error);
  a response whose status is not 2xx is an HTTP error; otherwise the parsed body.
\<close>

definition API_fetch :: "network \<Rightarrow> string \<Rightarrow> options \<Rightarrow> world \<Rightarrow> (error + jsval) \<times> world" where
  "API_fetch net url opts w =
     (case net (fetch_count w) url opts of (latency, out) \<Rightarrow>
        let w1 = w\<lparr>trace := trace w @ [Fetch url opts]\<rparr> in
        if config_timeout \<le> int latency
        then (Inl Timeout, w1\<lparr>clock := clock w + config_timeout\<rparr>)
        else
          let w2 = w1\<lparr>clock := clock w + int latency\<rparr> in
          (case out of
             Rejected \<Rightarrow> (Inl NetworkError, w2)
           | Response status body \<Rightarrow>
               if \<not> (200 \<le> status \<and> status \<le> 299) then (Inl (HttpError status), w2)
               else (case body of None \<Rightarrow> (Inl ParseFailure, w2) | Some data \<Rightarrow> (Inr data, w2))))"

definition delay :: "int \<Rightarrow> world \<Rightarrow> world" where
  "delay ms w = w\<lparr>clock := clock w + ms, trace := trace w @ [Delay ms]\<rparr>"

function fetchWithRetry ::
  "network \<Rightarrow> string \<Rightarrow> options \<Rightarrow> int \<Rightarrow> world \<Rightarrow> (error + jsval) \<times> world" where
  "fetchWithRetry net url opts attempts w =
     (case API_fetch net url opts w of
        (Inr data, w1) \<Rightarrow> (Inr data, w1)
      | (Inl err, w1) \<Rightarrow>
          if attempts \<le> 1 then (Inl err, w1)
          else fetchWithRetry net url opts (attempts - 1) (delay retryDelay w1))"
  by pat_completeness auto
termination
  by (relation "measure (\<lambda>(net, url, opts, attempts, w). nat attempts)") auto

declare fetchWithRetry.simps [simp del]

section \<open>Exchange adapter (binance.js)\<close>

definition baseURL :: string where
  "baseURL = ''https://api.binance.com''"

text \<open>
  The tables \<open>symbols\<close> and \<open>chainNames\<close>, read on their own properties: a chain
  that is not listed gives \<open>undefined\<close>.
\<close>

definition symbols :: "string \<Rightarrow> string option" where
  "symbols = map_of [(''btc'', ''BTCUSDT''), (''eth'', ''ETHUSDT''), (''sol'', ''SOLUSDT'')]"

definition chainNames :: "string \<Rightarrow> string option" where
  "chainNames = map_of [(''btc'', ''Bitcoin''), (''eth'', ''Ethereum''), (''sol'', ''Solana'')]"

definition minUSD :: num where
  "minUSD = Fin 100000"

text \<open>\<open>callAPI\<close>: any error of the request is logged and replaced by an empty array.\<close>

definition callAPI :: "network \<Rightarrow> string \<Rightarrow> world \<Rightarrow> jsval \<times> world" where
  "callAPI net endpoint w =
     (case fetchWithRetry net (baseURL @ endpoint) [] retryAttempts w of
        (Inr response, w1) \<Rightarrow> (response, w1)
      | (Inl err, w1) \<Rightarrow> (JArr [], w1))"

text \<open>
  The body of the loop of \<open>processTrades\<close>, inside its \<open>try\<close>: \<open>Inr None\<close> is the
  \<open>continue\<close> of a trade below the threshold, \<open>Inl\<close> an error thrown on the way.
\<close>

definition processTrade :: "engine \<Rightarrow> string \<Rightarrow> jsval \<Rightarrow> error + transaction option" where
  "processTrade E ch trade =
     thenE (getProp trade ''price'') (\<lambda>p.
     thenE (parseFloat E p) (\<lambda>price.
     thenE (getProp trade ''qty'') (\<lambda>q.
     thenE (parseFloat E q) (\<lambda>qty.
     thenE (getProp trade ''quoteQty'') (\<lambda>qq.
     thenE (parseFloat E qq) (\<lambda>quoteQty.
     thenE (getProp trade ''time'') (\<lambda>time.
       if num_lt quoteQty minUSD then Inr None
       else
         thenE (getProp trade ''id'') (\<lambda>i.
         thenE (templateText E i) (\<lambda>idText.
         thenE (getProp trade ''isBuyerMaker'') (\<lambda>m.
         thenE (newDate E time) (\<lambda>date.
           let amountNative = qty;
               tradeId = ''binance_'' @ ch @ ''_'' @ idText;
               isBuyerMaker = js_truthy m;
               from = (if isBuyerMaker then ''Binance Seller'' else ''Binance Buyer'');
               to = (if isBuyerMaker then ''Binance Buyer'' else ''Binance Seller'')
           in Inr (Some
                \<lparr>tx_id = tradeId,
                 hash = tradeId,
                 chain = ch,
                 network = chainNames ch,
                 amountNative = amountNative,
                 amountUsd = quoteQty,
                 tx_from = from,
                 tx_to = to,
                 feeNative = Fin 0,
                 feeUsd = Fin 0,
                 timestamp = date,
                 blockHeight = Fin 0,
                 blockHash = [],
                 confirmations = Fin 0,
                 explorerUrl = ''https://www.binance.com/en/trade/'' @
                   (case symbols ch of None \<Rightarrow> ''undefined'' | Some s \<Rightarrow> s),
                 isExchangeTrade = True,
                 price = price\<rparr>))))))))))))"

text \<open>The loop: a trade that threw is logged and skipped, like one below the threshold.\<close>

fun processLoop :: "engine \<Rightarrow> string \<Rightarrow> jsval list \<Rightarrow> transaction list \<Rightarrow> transaction list" where
  "processLoop E ch [] processed = processed"
| "processLoop E ch (trade # rest) processed =
     (case processTrade E ch trade of
        Inr (Some tx) \<Rightarrow> processLoop E ch rest (processed @ [tx])
      | Inr None \<Rightarrow> processLoop E ch rest processed
      | Inl err \<Rightarrow> processLoop E ch rest processed)"

text \<open>\<open>processTrades\<close>: iterating a payload that is not iterable throws outside the loop's \<open>try\<close>.\<close>

definition processTrades :: "engine \<Rightarrow> string \<Rightarrow> jsval \<Rightarrow> num \<Rightarrow> error + transaction list" where
  "processTrades E ch trades currentPrice =
     (case iterate trades of
        Inl err \<Rightarrow> Inl err
      | Inr ts \<Rightarrow> Inr (processLoop E ch ts []))"

text \<open>The comparator \<open>(a, b) => b.amountUsd - a.amountUsd\<close>.\<close>

definition byAmount :: "transaction \<Rightarrow> transaction \<Rightarrow> num" where
  "byAmount a b = num_sub (amountUsd b) (amountUsd a)"

definition txCacheKey :: "string \<Rightarrow> int \<Rightarrow> string" where
  "txCacheKey ch limit = ''binance_'' @ ch @ ''_transactions_'' @ show_int limit"

text \<open>\<open>processedTxs.sort((a, b) => b.amountUsd - a.amountUsd).slice(0, limit)\<close>.\<close>

definition sortAndLimit :: "transaction list \<Rightarrow> int \<Rightarrow> transaction list" where
  "sortAndLimit processedTxs limit = slice0 (js_sort byAmount processedTxs) limit"

text \<open>\<open>parseFloat(ticker.price)\<close>, which both adapter operations evaluate.\<close>

definition priceRead :: "engine \<Rightarrow> jsval \<Rightarrow> error + num" where
  "priceRead E ticker = thenE (getProp ticker ''price'') (parseFloat E)"

text \<open>The \<open>try\<close> block of \<open>getLargeTransactions\<close>, after the cache miss.\<close>

definition getLargeTransactions_try ::
  "network \<Rightarrow> engine \<Rightarrow> string \<Rightarrow> int \<Rightarrow> world \<Rightarrow> (error + value) \<times> world" where
  "getLargeTransactions_try net E ch limit w =
     (case symbols ch of
        None \<Rightarrow> (Inl (UnsupportedAsset ch), w)
      | Some symbol \<Rightarrow>
          (case callAPI net (''/api/v3/trades?symbol='' @ symbol @ ''&limit=1000'') w of
             (trades, w1) \<Rightarrow>
          (case callAPI net (''/api/v3/ticker/price?symbol='' @ symbol) w1 of
             (ticker, w2) \<Rightarrow>
          (case priceRead E ticker of
             Inl err \<Rightarrow> (Inl err, w2)
           | Inr currentPrice \<Rightarrow>
               (case processTrades E ch trades currentPrice of
                  Inl err \<Rightarrow> (Inl err, w2)
                | Inr processedTxs \<Rightarrow>
                    let sortedTxs = sortAndLimit processedTxs limit in
                    (Inr (VTxs sortedTxs),
                     Cache_set (txCacheKey ch limit) (VTxs sortedTxs) (60 * 1000) w2))))))"

text \<open>
  \<open>getLargeTransactions\<close>: the settled promise, \<open>Inr\<close> when fulfilled and \<open>Inl\<close> when
  rejected. A cached value counts as a hit when it is truthy.
\<close>

definition getLargeTransactions ::
  "network \<Rightarrow> engine \<Rightarrow> string \<Rightarrow> int \<Rightarrow> world \<Rightarrow> (error + value) \<times> world" where
  "getLargeTransactions net E ch limit w =
     (case Cache_get (txCacheKey ch limit) w of
        (Some cached, w0) \<Rightarrow>
          if truthy cached then (Inr cached, w0)
          else (case getLargeTransactions_try net E ch limit w0 of
                  (Inl err, w1) \<Rightarrow> (Inr (VTxs []), w1)
                | (Inr txs, w1) \<Rightarrow> (Inr txs, w1))
      | (None, w0) \<Rightarrow>
          (case getLargeTransactions_try net E ch limit w0 of
             (Inl err, w1) \<Rightarrow> (Inr (VTxs []), w1)
           | (Inr txs, w1) \<Rightarrow> (Inr txs, w1)))"

definition priceCacheKey :: "string \<Rightarrow> string" where
  "priceCacheKey ch = ''binance_'' @ ch @ ''_price''"

definition defaultPrices :: "string \<Rightarrow> num option" where
  "defaultPrices = map_of [(''btc'', Fin 95000), (''eth'', Fin 3200), (''sol'', Fin 240)]"

text \<open>
  The \<open>try\<close> block of \<open>getPrice\<close>. An unknown chain makes the template literal print
  \<open>undefined\<close> into the URL; nothing is checked before the request.
\<close>

definition getPrice_try :: "network \<Rightarrow> engine \<Rightarrow> string \<Rightarrow> world \<Rightarrow> (error + value) \<times> world" where
  "getPrice_try net E ch w =
     (let symbol = (case symbols ch of None \<Rightarrow> ''undefined'' | Some s \<Rightarrow> s) in
      case callAPI net (''/api/v3/ticker/price?symbol='' @ symbol) w of
        (ticker, w1) \<Rightarrow>
          (case priceRead E ticker of
             Inl err \<Rightarrow> (Inl err, w1)
           | Inr priceNum \<Rightarrow>
               (Inr (VNum priceNum),
                Cache_set (priceCacheKey ch) (VNum priceNum) (60 * 1000) w1)))"

text \<open>The \<open>catch\<close> of \<open>getPrice\<close>: \<open>defaultPrices[chain] || 0\<close>.\<close>

definition fallbackPrice :: "string \<Rightarrow> num" where
  "fallbackPrice ch =
     (case defaultPrices ch of
        None \<Rightarrow> Fin 0
      | Some p \<Rightarrow> if num_truthy p then p else Fin 0)"

definition getPrice :: "network \<Rightarrow> engine \<Rightarrow> string \<Rightarrow> world \<Rightarrow> (error + value) \<times> world" where
  "getPrice net E ch w =
     (case Cache_get (priceCacheKey ch) w of
        (Some cached, w0) \<Rightarrow>
          if truthy cached then (Inr cached, w0)
          else (case getPrice_try net E ch w0 of
                  (Inl err, w1) \<Rightarrow> (Inr (VNum (fallbackPrice ch)), w1)
                | (Inr v, w1) \<Rightarrow> (Inr v, w1))
      | (None, w0) \<Rightarrow>
          (case getPrice_try net E ch w0 of
             (Inl err, w1) \<Rightarrow> (Inr (VNum (fallbackPrice ch)), w1)
           | (Inr v, w1) \<Rightarrow> (Inr v, w1)))"

text \<open>
  The adapter's test \<open>if (cached)\<close> fails: \<open>Cache.get\<close> returned \<open>null\<close> or a falsy
  value.
\<close>

definition cacheMiss :: "string \<Rightarrow> world \<Rightarrow> bool" where
  "cacheMiss key w =
     (case fst (Cache_get key w) of None \<Rightarrow> True | Some cached \<Rightarrow> \<not> truthy cached)"

section \<open>Per-asset service facades\<close>

definition SolanaService_getLargeTransactions ::
  "network \<Rightarrow> engine \<Rightarrow> int \<Rightarrow> world \<Rightarrow> (error + value) \<times> world" where
  "SolanaService_getLargeTransactions net E limit w = getLargeTransactions net E ''sol'' limit w"

definition EthereumService_getLargeTransactions ::
  "network \<Rightarrow> engine \<Rightarrow> int \<Rightarrow> world \<Rightarrow> (error + value) \<times> world" where
  "EthereumService_getLargeTransactions net E limit w = getLargeTransactions net E ''eth'' limit w"

text \<open>
  Modelled from the spec: \<open>BitcoinService\<close> (bitcoin.js) is called by the controller
  but is not among the sources. The spec describes the per-asset facades as a trivial
  delegation from an asset identifier to the exchange adapter, which is what its two
  siblings above do.
\<close>

definition BitcoinService_getLargeTransactions ::
  "network \<Rightarrow> engine \<Rightarrow> int \<Rightarrow> world \<Rightarrow> (error + value) \<times> world" where
  "BitcoinService_getLargeTransactions net E limit w = getLargeTransactions net E ''btc'' limit w"

section \<open>Application controller (app.js)\<close>

text \<open>
  \<open>App.state\<close>, together with what the claims need of its surroundings: the arrays the
  controller allocates and mutates live in a store (\<open>heap\<close>, addresses handed out from
  \<open>nextAddr\<close>), so that \<open>state.transactions\<close> is a reference and an in-place
  \<open>sort\<close> or \<open>push\<close> is a write to the store; of the page, the panel that is visible,
  the cards last written into the container and the error shown.
\<close>

datatype panel = LoadingPanel | TransactionsPanel | ErrorPanel | EmptyPanel

record app =
  currentChain :: string
  currentSort :: string
  transactions :: nat
  isLoading :: bool
  lastUpdate :: "int option"
  expandedTxId :: "string option"
  heap :: "nat \<Rightarrow> transaction list"
  nextAddr :: nat
  visible :: panel
  cards :: "transaction list"
  errorMessage :: "error option"

text \<open>A new array with the given elements (\<open>[]\<close>, a spread copy, the result of \<open>filter\<close>).\<close>

definition newArray :: "transaction list \<Rightarrow> app \<Rightarrow> nat \<times> app" where
  "newArray xs a =
     (nextAddr a, a\<lparr>heap := (heap a)(nextAddr a := xs), nextAddr := Suc (nextAddr a)\<rparr>)"

text \<open>\<open>arr.sort(cmp)\<close> sorts the array at that address in place.\<close>

definition sortInPlace :: "(transaction \<Rightarrow> transaction \<Rightarrow> num) \<Rightarrow> nat \<Rightarrow> app \<Rightarrow> app" where
  "sortInPlace cmp addr a = a\<lparr>heap := (heap a)(addr := js_sort cmp (heap a addr))\<rparr>"

definition showLoading :: "app \<Rightarrow> app" where
  "showLoading a = a\<lparr>visible := LoadingPanel\<rparr>"

definition showTransactions :: "app \<Rightarrow> app" where
  "showTransactions a = a\<lparr>visible := TransactionsPanel\<rparr>"

definition showError :: "error \<Rightarrow> app \<Rightarrow> app" where
  "showError err a = a\<lparr>visible := ErrorPanel, errorMessage := Some err\<rparr>"

definition showEmpty :: "app \<Rightarrow> app" where
  "showEmpty a = a\<lparr>visible := EmptyPanel\<rparr>"

text \<open>The comparator \<open>(a, b) => new Date(b.timestamp) - new Date(a.timestamp)\<close>.\<close>

definition byTime :: "transaction \<Rightarrow> transaction \<Rightarrow> num" where
  "byTime a b = num_sub (timestamp b) (timestamp a)"

definition renderTransactions :: "app \<Rightarrow> app" where
  "renderTransactions a =
     (case newArray (heap a (transactions a)) a of (txs0, a1) \<Rightarrow>
      case (if currentChain a1 \<noteq> ''all''
            then newArray (filter (\<lambda>tx. chain tx = currentChain a1) (heap a1 txs0)) a1
            else (txs0, a1)) of (txs, a2) \<Rightarrow>
      let a3 = (if currentSort a2 = ''amount'' then sortInPlace byAmount txs a2
                else sortInPlace byTime txs a2)
      in if length (heap a3 txs) = 0 then showEmpty a3
         else showTransactions (a3\<lparr>cards := heap a3 txs\<rparr>))"

text \<open>
  The spec's words for what is presented: a view of the stored list filtered by the
  selected asset (or \<open>all\<close>) and sorted by USD value descending or by timestamp
  descending. The render step is compared with it below.
\<close>

definition derivedView :: "app \<Rightarrow> transaction list" where
  "derivedView a =
     js_sort (if currentSort a = ''amount'' then byAmount else byTime)
       (if currentChain a \<noteq> ''all''
        then filter (\<lambda>tx. chain tx = currentChain a) (heap a (transactions a))
        else heap a (transactions a))"

text \<open>
  \<open>this.state.transactions.push(...r.value)\<close> for a settled result \<open>r\<close>: skipped when
  rejected; spreading a value that is not iterable throws.
\<close>

fun pushSettled :: "error + value \<Rightarrow> app \<Rightarrow> error + app" where
  "pushSettled (Inl reason) a = Inr a"
| "pushSettled (Inr (VTxs xs)) a =
     Inr (a\<lparr>heap := (heap a)(transactions a := heap a (transactions a) @ xs)\<rparr>)"
| "pushSettled (Inr (VNum n)) a = Inl TypeError"

text \<open>
  The \<open>try\<close> block of \<open>loadData\<close>; \<open>Some err\<close> is an error thrown, with the state
  reached when it was thrown. The three requests run concurrently on one thread and use
  different cache keys; they are taken here in the order of the array given to
  \<open>Promise.allSettled\<close>.
\<close>

definition loadData_try ::
  "network \<Rightarrow> engine \<Rightarrow> bool \<Rightarrow> app \<Rightarrow> world \<Rightarrow> error option \<times> app \<times> world" where
  "loadData_try net E force a w =
     (let w0 = (if force then Cache_clear w else w) in
      case BitcoinService_getLargeTransactions net E 20 w0 of (btcTxs, w1) \<Rightarrow>
      case EthereumService_getLargeTransactions net E 20 w1 of (ethTxs, w2) \<Rightarrow>
      case SolanaService_getLargeTransactions net E 20 w2 of (solTxs, w3) \<Rightarrow>
      case newArray [] a of (fresh, a0) \<Rightarrow>
      let a1 = a0\<lparr>transactions := fresh\<rparr> in
      (case pushSettled btcTxs a1 of
         Inl err \<Rightarrow> (Some err, a1, w3)
       | Inr a2 \<Rightarrow>
      (case pushSettled ethTxs a2 of
         Inl err \<Rightarrow> (Some err, a2, w3)
       | Inr a3 \<Rightarrow>
      (case pushSettled solTxs a3 of
         Inl err \<Rightarrow> (Some err, a3, w3)
       | Inr a4 \<Rightarrow>
           (None, renderTransactions (a4\<lparr>lastUpdate := Some (clock w3)\<rparr>), w3)))))"

definition loadData :: "network \<Rightarrow> engine \<Rightarrow> bool \<Rightarrow> app \<Rightarrow> world \<Rightarrow> app \<times> world" where
  "loadData net E force a w =
     (if isLoading a then (a, w)
      else
        case loadData_try net E force (showLoading (a\<lparr>isLoading := True\<rparr>)) w of
          (None, a1, w1) \<Rightarrow> (a1\<lparr>isLoading := False\<rparr>, w1)
        | (Some err, a1, w1) \<Rightarrow>
            let a2 = (if length (heap a1 (transactions a1)) = 0 then showError err a1
                      else showTransactions a1)
            in (a2\<lparr>isLoading := False\<rparr>, w1))"

section \<open>Sample inputs\<close>

text \<open>An empty cache at time \<open>0\<close> with no request made yet.\<close>

definition world0 :: world where
  "world0 = \<lparr>storage = (\<lambda>k. None), clock = 0, trace = []\<rparr>"

text \<open>An engine that knows the decimal strings of the samples below.\<close>

definition engine0 :: engine where
  "engine0 =
     \<lparr>strToNum = (\<lambda>s. if s = ''150000.00'' then Fin 150000
                     else if s = ''50000.00'' then Fin 50000
                     else if s = ''250000.00'' then Fin 250000
                     else if s = ''95000.00'' then Fin 95000
                     else if s = ''2.00'' then Fin 2
                     else NaN),
      toStr = (\<lambda>v. case v of JNum (Fin r) \<Rightarrow> show_int (floor r) | _ \<Rightarrow> ''undefined''),
      dateValue = (\<lambda>v. case v of JNum n \<Rightarrow> n | _ \<Rightarrow> NaN)\<rparr>"

text \<open>Raw trades as the exchange sends them: a value of 150,000 and one of 50,000.\<close>

definition rawLarge :: jsval where
  "rawLarge = JObj [(''id'', JNum (Fin 7)), (''price'', JStr ''95000.00''), (''qty'', JStr ''2.00''),
     (''quoteQty'', JStr ''150000.00''), (''time'', JNum (Fin 1700000000000)),
     (''isBuyerMaker'', JBool False)]"

definition rawSmall :: jsval where
  "rawSmall = JObj [(''id'', JNum (Fin 8)), (''price'', JStr ''95000.00''), (''qty'', JStr ''2.00''),
     (''quoteQty'', JStr ''50000.00''), (''time'', JNum (Fin 1700000000001)),
     (''isBuyerMaker'', JBool True)]"

text \<open>A raw trade whose \<open>quoteQty\<close> field is missing.\<close>

definition rawNoQuote :: jsval where
  "rawNoQuote = JObj [(''id'', JNum (Fin 9)), (''price'', JStr ''95000.00''), (''qty'', JStr ''2.00''),
     (''time'', JNum (Fin 1700000000002)), (''isBuyerMaker'', JBool False)]"

text \<open>A transaction with the given chain, USD value and time, its other fields fixed.\<close>

definition sampleTx :: "string \<Rightarrow> rat \<Rightarrow> rat \<Rightarrow> transaction" where
  "sampleTx ch usd t =
     \<lparr>tx_id = ''binance_'' @ ch @ ''_1'', hash = ''binance_'' @ ch @ ''_1'', chain = ch,
      network = chainNames ch, amountNative = Fin 1, amountUsd = Fin usd,
      tx_from = ''Binance Buyer'', tx_to = ''Binance Seller'', feeNative = Fin 0,
      feeUsd = Fin 0, timestamp = Fin t, blockHeight = Fin 0, blockHash = [],
      confirmations = Fin 0, explorerUrl = ''https://www.binance.com/en/trade/BTCUSDT'',
      isExchangeTrade = True, price = Fin 95000\<rparr>"

text \<open>A network on which every request is rejected.\<close>

definition netDown :: network where
  "netDown = (\<lambda>k url opts. (0, Rejected))"


text \<open>A network that serves one large BTC trade and rejects every other request.\<close>

definition netTradesOnly :: network where
  "netTradesOnly = (\<lambda>k url opts.
     if url = ''https://api.binance.com/api/v3/trades?symbol=BTCUSDT&limit=1000''
     then (120, Response 200 (Some (JArr [rawLarge])))
     else (0, Rejected))"

text \<open>A network that rejects the trades request and answers every other with \<open>null\<close>.\<close>

definition netNullTicker :: network where
  "netNullTicker = (\<lambda>k url opts.
     if url = ''https://api.binance.com/api/v3/trades?symbol=BTCUSDT&limit=1000''
     then (0, Rejected)
     else (80, Response 200 (Some JNull)))"

text \<open>The controller before its first load, with one (empty) array allocated.\<close>

definition app0 :: app where
  "app0 =
     \<lparr>currentChain = ''all'', currentSort = ''amount'', transactions = 0, isLoading = False,
      lastUpdate = None, expandedTxId = None, heap = (\<lambda>addr. []), nextAddr = 1,
      visible = LoadingPanel, cards = [], errorMessage = None\<rparr>"

text \<open>The controller holding four transactions, showing BTC only, sorted by time.\<close>

definition app1 :: app where
  "app1 = app0\<lparr>currentChain := ''btc'', currentSort := ''time'',
     heap := (\<lambda>addr. [])(0 := [sampleTx ''btc'' 150000 3, sampleTx ''eth'' 250000 1,
                               sampleTx ''btc'' 400000 2, sampleTx ''btc'' 120000 5])\<rparr>"

section \<open>Properties of the cache\<close>

lemma Cache_get_absent: "storage w key = None \<Longrightarrow> Cache_get key w = (None, w)"
  by (simp add: Cache_get_def)

lemma Cache_get_expired:
  "storage w key = Some item \<Longrightarrow> clock w > expiry item \<Longrightarrow>
   Cache_get key w = (None, w\<lparr>storage := (storage w)(key := None)\<rparr>)"
  by (simp add: Cache_get_def)

lemma Cache_get_live:
  "storage w key = Some item \<Longrightarrow> \<not> clock w > expiry item \<Longrightarrow>
   Cache_get key w = (Some (item_value item), w)"
  by (simp add: Cache_get_def)

lemma Cache_get_Some_iff:
  "fst (Cache_get key w) = Some v \<longleftrightarrow>
   (\<exists>item. storage w key = Some item \<and> item_value item = v \<and> clock w \<le> expiry item)"
  by (auto simp: Cache_get_def split: option.splits)

text \<open>
  C2. For every key and every state of the store and clock, \<open>Cache.get\<close> returns absent
  and leaves the store alone when the key is unknown; returns absent and deletes the entry
  (and nothing else) when the clock is past the entry's expiry; returns the stored value
  and leaves the store alone otherwise. Hence a value it returns is never one whose expiry
  has passed.
\<close>

theorem Cache_get_never_stale:
  "(storage w key = None \<longrightarrow> Cache_get key w = (None, w)) \<and>
   (\<forall>item. storage w key = Some item \<and> clock w > expiry item \<longrightarrow>
      Cache_get key w = (None, w\<lparr>storage := (storage w)(key := None)\<rparr>)) \<and>
   (\<forall>item. storage w key = Some item \<and> \<not> clock w > expiry item \<longrightarrow>
      Cache_get key w = (Some (item_value item), w)) \<and>
   (\<forall>v. fst (Cache_get key w) = Some v \<longrightarrow>
      (\<exists>item. storage w key = Some item \<and> item_value item = v \<and> clock w \<le> expiry item))"
  by (auto simp: Cache_get_def split: option.splits)

theorem Cache_get_never_stale_witness:
  "fst (Cache_get ''k'' (Cache_set ''k'' (VNum (Fin 42)) 1000 world0)) = Some (VNum (Fin 42)) \<and>
   fst (Cache_get ''k'' ((Cache_set ''k'' (VNum (Fin 42)) 1000 world0)\<lparr>clock := 1001\<rparr>)) = None \<and>
   storage (snd (Cache_get ''k'' ((Cache_set ''k'' (VNum (Fin 42)) 1000 world0)\<lparr>clock := 1001\<rparr>)))
     ''k'' = None \<and>
   fst (Cache_get ''other'' (Cache_set ''k'' (VNum (Fin 42)) 1000 world0)) = None"
  using Cache_get_never_stale [of "Cache_set ''k'' (VNum (Fin 42)) 1000 world0" "''k''"]
    Cache_get_never_stale [of "(Cache_set ''k'' (VNum (Fin 42)) 1000 world0)\<lparr>clock := 1001\<rparr>" "''k''"]
    Cache_get_never_stale [of "Cache_set ''k'' (VNum (Fin 42)) 1000 world0" "''other''"]
  by (simp add: Cache_set_def world0_def)

section \<open>Properties of the threshold filter\<close>

lemma processTrade_Some:
  assumes "processTrade E ch trade = Inr (Some tx)"
  shows "\<exists>qq. getProp trade ''quoteQty'' = Inr qq \<and> parseFloat E qq = Inr (amountUsd tx) \<and>
           \<not> num_lt (amountUsd tx) minUSD"
  using assms
  by (auto simp: processTrade_def thenE_def Let_def split: sum.splits if_splits)

lemma processLoop_set:
  "set (processLoop E ch ts processed) =
   set processed \<union> {tx. \<exists>trade \<in> set ts. processTrade E ch trade = Inr (Some tx)}"
proof (induction ts arbitrary: processed)
  case Nil
  then show ?case by simp
next
  case (Cons trade rest)
  show ?case
    by (cases "processTrade E ch trade") (auto simp: Cons.IH split: option.splits)
qed

text \<open>
  What the filter does guarantee: no emitted transaction has an amount that compares
  below the threshold, so an amount that is a number is at least 100000.
\<close>

lemma processTrades_not_below:
  assumes "processTrades E ch trades currentPrice = Inr txs" and "tx \<in> set txs"
  shows "\<not> num_lt (amountUsd tx) minUSD"
proof -
  from assms obtain ts where ts: "iterate trades = Inr ts" "txs = processLoop E ch ts []"
    by (auto simp: processTrades_def split: sum.splits)
  with assms(2) obtain trade where "trade \<in> set ts" "processTrade E ch trade = Inr (Some tx)"
    by (auto simp: processLoop_set)
  then show ?thesis
    using processTrade_Some by fastforce
qed

lemma processTrades_numeric_ge:
  assumes "processTrades E ch trades currentPrice = Inr txs" and "tx \<in> set txs"
    and "amountUsd tx \<noteq> NaN"
  shows "num_ge (amountUsd tx) minUSD"
  using processTrades_not_below [OF assms(1,2)] assms(3)
  by (simp add: num_ge_def minUSD_def)

text \<open>The scenario of the spec: of a 50,000 and a 150,000 trade only the second is emitted.\<close>

lemma processTrades_two_trades:
  "map amountUsd
     (case processTrades engine0 ''btc'' (JArr [rawSmall, rawLarge]) NaN of
        Inr txs \<Rightarrow> txs | Inl e \<Rightarrow> []) = [Fin 150000]"
  by (simp add: processTrades_def processTrade_def rawSmall_def rawLarge_def thenE_def
      minUSD_def engine0_def Let_def parseFloat_def templateText_def newDate_def)

text \<open>
  C1. The claim is that every transaction emitted by \<open>processTrades\<close> has
  \<open>amountUsd >= 100000\<close>. The code breaks it on a raw trade whose \<open>quoteQty\<close> does
  not parse (here: the field is missing): \<open>parseFloat\<close> gives NaN, the guard
  \<open>quoteQty < minUSD\<close> is false for NaN, and a transaction with \<open>amountUsd\<close> NaN is
  emitted, for which \<open>amountUsd >= 100000\<close> is false. This holds for every engine and
  every price.
\<close>

theorem processTrades_missing_quoteQty:
  "\<exists>tx. processTrades E ''btc'' (JArr [rawNoQuote]) currentPrice = Inr [tx] \<and>
         amountUsd tx = NaN \<and> \<not> num_ge (amountUsd tx) minUSD"
  by (simp add: processTrades_def processTrade_def rawNoQuote_def thenE_def minUSD_def
      num_ge_def Let_def parseFloat_def templateText_def newDate_def)

section \<open>Properties of sorting and truncation\<close>


















section \<open>Properties of the HTTP client\<close>

lemma API_fetch_trace: "trace (snd (API_fetch net url opts w)) = trace w @ [Fetch url opts]"
  by (simp add: API_fetch_def Let_def split: prod.splits outcome.splits option.splits)

lemma API_fetch_storage: "storage (snd (API_fetch net url opts w)) = storage w"
  by (simp add: API_fetch_def Let_def split: prod.splits outcome.splits option.splits)






lemma netDown_fails: "fst (API_fetch netDown url opts w') = Inl NetworkError"
  by (simp add: API_fetch_def netDown_def config_timeout_def)


section \<open>Properties of the exchange adapter\<close>

lemma API_fetch_storage_indep:
  "API_fetch net url opts (w\<lparr>storage := s\<rparr>) =
   (fst (API_fetch net url opts w), (snd (API_fetch net url opts w))\<lparr>storage := s\<rparr>)"
  by (simp add: API_fetch_def fetch_count_def Let_def
      split: prod.splits outcome.splits option.splits)

lemma fetchWithRetry_storage_indep:
  "fetchWithRetry net url opts attempts (w\<lparr>storage := s\<rparr>) =
   (fst (fetchWithRetry net url opts attempts w),
    (snd (fetchWithRetry net url opts attempts w))\<lparr>storage := s\<rparr>)"
proof (induction net url opts attempts w rule: fetchWithRetry.induct)
  case (1 net url opts attempts w)
  obtain r w1 where f: "API_fetch net url opts w = (r, w1)"
    by (cases "API_fetch net url opts w")
  then have f': "API_fetch net url opts (w\<lparr>storage := s\<rparr>) = (r, w1\<lparr>storage := s\<rparr>)"
    by (simp add: API_fetch_storage_indep)
  show ?case
  proof (cases r)
    case (Inr data)
    with f f' show ?thesis
      by (simp add: fetchWithRetry.simps [of net url opts attempts w]
          fetchWithRetry.simps [of net url opts attempts "w\<lparr>storage := s\<rparr>"])
  next
    case (Inl err)
    show ?thesis
    proof (cases "attempts \<le> 1")
      case True
      with f f' Inl show ?thesis
        by (simp add: fetchWithRetry.simps [of net url opts attempts w]
            fetchWithRetry.simps [of net url opts attempts "w\<lparr>storage := s\<rparr>"])
    next
      case False
      have d: "delay retryDelay (w1\<lparr>storage := s\<rparr>) = (delay retryDelay w1)\<lparr>storage := s\<rparr>"
        by (simp add: delay_def)
      from "1.IH" [OF f [symmetric] Inl False] f f' Inl False d show ?thesis
        by (simp add: fetchWithRetry.simps [of net url opts attempts w]
            fetchWithRetry.simps [of net url opts attempts "w\<lparr>storage := s\<rparr>"])
    qed
  qed
qed

lemma fetchWithRetry_storage: "storage (snd (fetchWithRetry net url opts attempts w)) = storage w"
proof (induction net url opts attempts w rule: fetchWithRetry.induct)
  case (1 net url opts attempts w)
  obtain r w1 where f: "API_fetch net url opts w = (r, w1)"
    by (cases "API_fetch net url opts w")
  then have s1: "storage w1 = storage w"
    using API_fetch_storage [of net url opts w] by simp
  show ?case
  proof (cases r)
    case (Inr data)
    with f s1 show ?thesis
      by (simp add: fetchWithRetry.simps [of net url opts attempts w])
  next
    case (Inl err)
    show ?thesis
    proof (cases "attempts \<le> 1")
      case True
      with f s1 Inl show ?thesis
        by (simp add: fetchWithRetry.simps [of net url opts attempts w])
    next
      case False
      from "1.IH" [OF f [symmetric] Inl False] f s1 Inl False show ?thesis
        by (simp add: fetchWithRetry.simps [of net url opts attempts w] delay_def)
    qed
  qed
qed

lemma fetchWithRetry_trace_prefix:
  "\<exists>rest. trace (snd (fetchWithRetry net url opts attempts w)) = trace w @ rest"
proof (induction net url opts attempts w rule: fetchWithRetry.induct)
  case (1 net url opts attempts w)
  obtain r w1 where f: "API_fetch net url opts w = (r, w1)"
    by (cases "API_fetch net url opts w")
  then have t1: "trace w1 = trace w @ [Fetch url opts]"
    using API_fetch_trace [of net url opts w] by simp
  show ?case
  proof (cases r)
    case (Inr data)
    with f t1 show ?thesis
      by (simp add: fetchWithRetry.simps [of net url opts attempts w])
  next
    case (Inl err)
    show ?thesis
    proof (cases "attempts \<le> 1")
      case True
      with f t1 Inl show ?thesis
        by (simp add: fetchWithRetry.simps [of net url opts attempts w])
    next
      case False
      from "1.IH" [OF f [symmetric] Inl False] f t1 Inl False show ?thesis
        by (auto simp: fetchWithRetry.simps [of net url opts attempts w] delay_def)
    qed
  qed
qed

lemma fetchWithRetry_trace:
  "\<exists>rest. trace (snd (fetchWithRetry net url opts attempts w)) = trace w @ Fetch url opts # rest"
proof -
  obtain r w1 where f: "API_fetch net url opts w = (r, w1)"
    by (cases "API_fetch net url opts w")
  then have t1: "trace w1 = trace w @ [Fetch url opts]"
    using API_fetch_trace [of net url opts w] by simp
  show ?thesis
  proof (cases "\<exists>err. r = Inl err \<and> \<not> attempts \<le> 1")
    case True
    then obtain err where e: "r = Inl err" "\<not> attempts \<le> 1"
      by blast
    obtain rest where
      "trace (snd (fetchWithRetry net url opts (attempts - 1) (delay retryDelay w1))) =
       trace (delay retryDelay w1) @ rest"
      using fetchWithRetry_trace_prefix by blast
    with f t1 e show ?thesis
      by (simp add: fetchWithRetry.simps [of net url opts attempts w] delay_def)
  next
    case False
    with f t1 show ?thesis
      by (cases r) (auto simp: fetchWithRetry.simps [of net url opts attempts w])
  qed
qed

lemma callAPI_storage_indep:
  "callAPI net endpoint (w\<lparr>storage := s\<rparr>) =
   (fst (callAPI net endpoint w), (snd (callAPI net endpoint w))\<lparr>storage := s\<rparr>)"
  by (simp add: callAPI_def fetchWithRetry_storage_indep split: prod.splits sum.splits)

lemma callAPI_storage: "storage (snd (callAPI net endpoint w)) = storage w"
  using fetchWithRetry_storage [of net "baseURL @ endpoint" "[]" retryAttempts w]
  by (auto simp: callAPI_def split: prod.splits sum.splits)

lemma callAPI_trace:
  "\<exists>rest. trace (snd (callAPI net endpoint w)) = trace w @ Fetch (baseURL @ endpoint) [] # rest"
  using fetchWithRetry_trace [of net "baseURL @ endpoint" "[]" retryAttempts w]
  by (auto simp: callAPI_def split: prod.splits sum.splits)

lemma callAPI_failed:
  "fst (fetchWithRetry net (baseURL @ endpoint) [] retryAttempts w) = Inl err \<Longrightarrow>
   fst (callAPI net endpoint w) = JArr []"
  by (auto simp: callAPI_def split: prod.splits sum.splits)

lemma fetchWithRetry_all_fail:
  "\<forall>w'. \<exists>e. fst (API_fetch net url opts w') = Inl e \<Longrightarrow>
   \<exists>e. fst (fetchWithRetry net url opts attempts w) = Inl e"
proof (induction net url opts attempts w rule: fetchWithRetry.induct)
  case (1 net url opts attempts w)
  from "1.prems" obtain err w1 where f: "API_fetch net url opts w = (Inl err, w1)"
    by (metis prod.collapse)
  show ?case
  proof (cases "attempts \<le> 1")
    case True
    with f show ?thesis
      by (simp add: fetchWithRetry.simps [of net url opts attempts w])
  next
    case False
    from "1.IH" [OF f [symmetric] refl False "1.prems"] f False show ?thesis
      by (simp add: fetchWithRetry.simps [of net url opts attempts w])
  qed
qed

text \<open>The two ways through the adapter operations: a hit and a miss.\<close>

lemma getLargeTransactions_miss:
  "cacheMiss (txCacheKey ch limit) w \<Longrightarrow>
   getLargeTransactions net E ch limit w =
     (case getLargeTransactions_try net E ch limit (snd (Cache_get (txCacheKey ch limit) w)) of
        (Inl err, w1) \<Rightarrow> (Inr (VTxs []), w1)
      | (Inr txs, w1) \<Rightarrow> (Inr txs, w1))"
  by (auto simp: getLargeTransactions_def cacheMiss_def split: prod.splits option.splits)

lemma getLargeTransactions_hit:
  "\<not> cacheMiss (txCacheKey ch limit) w \<Longrightarrow>
   \<exists>cached. Cache_get (txCacheKey ch limit) w = (Some cached, w) \<and> truthy cached \<and>
     getLargeTransactions net E ch limit w = (Inr cached, w)"
  by (auto simp: getLargeTransactions_def cacheMiss_def Cache_get_def
      split: prod.splits option.splits if_splits)

lemma getPrice_miss:
  "cacheMiss (priceCacheKey ch) w \<Longrightarrow>
   getPrice net E ch w =
     (case getPrice_try net E ch (snd (Cache_get (priceCacheKey ch) w)) of
        (Inl err, w1) \<Rightarrow> (Inr (VNum (fallbackPrice ch)), w1)
      | (Inr v, w1) \<Rightarrow> (Inr v, w1))"
  by (auto simp: getPrice_def cacheMiss_def split: prod.splits option.splits)

lemma getPrice_hit:
  "\<not> cacheMiss (priceCacheKey ch) w \<Longrightarrow>
   \<exists>cached. Cache_get (priceCacheKey ch) w = (Some cached, w) \<and> truthy cached \<and>
     getPrice net E ch w = (Inr cached, w)"
  by (auto simp: getPrice_def cacheMiss_def Cache_get_def
      split: prod.splits option.splits if_splits)

lemma getLargeTransactions_fulfilled: "\<exists>v. fst (getLargeTransactions net E ch limit w) = Inr v"
  by (auto simp: getLargeTransactions_def split: prod.splits option.splits sum.splits)

lemma slice0_Nil: "slice0 [] limit = []"
  by (simp add: slice0_def)

lemma sortAndLimit_Nil: "sortAndLimit [] limit = []"
  by (simp add: sortAndLimit_def js_sort_def slice0_Nil)

lemma processTrades_empty: "processTrades E ch (JArr []) currentPrice = Inr []"
  by (simp add: processTrades_def)

text \<open>A failed trades request leaves nothing to emit, whatever the price request does.\<close>

lemma getLargeTransactions_try_trades_failed:
  assumes "symbols ch = Some symbol"
    and "fst (fetchWithRetry net (baseURL @ ''/api/v3/trades?symbol='' @ symbol @ ''&limit=1000'')
           [] retryAttempts w) = Inl err"
  shows "fst (getLargeTransactions_try net E ch limit w) = Inr (VTxs []) \<or>
         (\<exists>e. fst (getLargeTransactions_try net E ch limit w) = Inl e)"
  using assms callAPI_failed [OF assms(2)]
  by (auto simp: getLargeTransactions_try_def processTrades_empty sortAndLimit_Nil Let_def
      split: prod.splits sum.splits)

lemma priceRead_empty: "priceRead E (JArr []) = Inr NaN"
  by (simp add: priceRead_def thenE_def parseFloat_def)

lemma getPrice_try_failed:
  assumes "fst (fetchWithRetry net (baseURL @ ''/api/v3/ticker/price?symbol='' @
             (case symbols ch of None \<Rightarrow> ''undefined'' | Some s \<Rightarrow> s)) [] retryAttempts w) = Inl err"
  shows "fst (getPrice_try net E ch w) = Inr (VNum NaN)"
  using callAPI_failed [OF assms]
  by (auto simp: getPrice_try_def Let_def priceRead_empty split: prod.splits sum.splits)

text \<open>
  Every failure of the price request is absorbed by \<open>callAPI\<close>: on a cache miss
  \<open>getPrice\<close> then returns NaN, and its \<open>catch\<close> with the fallback prices is not
  reached.
\<close>

lemma getPrice_fetch_failed:
  assumes "cacheMiss (priceCacheKey ch) w"
    and "fst (fetchWithRetry net (baseURL @ ''/api/v3/ticker/price?symbol='' @
             (case symbols ch of None \<Rightarrow> ''undefined'' | Some s \<Rightarrow> s)) [] retryAttempts
             (snd (Cache_get (priceCacheKey ch) w))) = Inl err"
  shows "fst (getPrice net E ch w) = Inr (VNum NaN)"
  using getPrice_try_failed [OF assms(2), of E]
  by (auto simp: getPrice_miss [OF assms(1)] split: prod.splits sum.splits)

lemma world0_miss: "cacheMiss key world0"
  by (simp add: cacheMiss_def Cache_get_def world0_def)

lemma netDown_retry_fails: "\<exists>e. fst (fetchWithRetry netDown url opts attempts w) = Inl e"
  by (rule fetchWithRetry_all_fail) (simp add: netDown_fails)

lemma getPrice_netDown: "fst (getPrice netDown E ch world0) = Inr (VNum NaN)"
proof -
  obtain e where
    "fst (fetchWithRetry netDown (baseURL @ ''/api/v3/ticker/price?symbol='' @
       (case symbols ch of None \<Rightarrow> ''undefined'' | Some s \<Rightarrow> s)) [] retryAttempts
       (snd (Cache_get (priceCacheKey ch) world0))) = Inl e"
    using netDown_retry_fails by blast
  then show ?thesis
    by (rule getPrice_fetch_failed [OF world0_miss])
qed

text \<open>
  C6. The claim is that \<open>getPrice\<close> returns the hardcoded fallback price (btc 95000,
  eth 3200, sol 240) whenever the price fetch fails. On the code, with an empty cache and
  every request rejected, \<open>getPrice\<close> returns NaN for each of the three assets:
  \<open>callAPI\<close> has already replaced the error by \<open>[]\<close>, \<open>[].price\<close> is
  \<open>undefined\<close>, and \<open>parseFloat(undefined)\<close> is NaN.
\<close>

theorem getPrice_network_down:
  "fst (getPrice netDown engine0 ''btc'' world0) = Inr (VNum NaN) \<and>
   fst (getPrice netDown engine0 ''eth'' world0) = Inr (VNum NaN) \<and>
   fst (getPrice netDown engine0 ''sol'' world0) = Inr (VNum NaN) \<and>
   fallbackPrice ''btc'' = Fin 95000 \<and> fallbackPrice ''eth'' = Fin 3200 \<and>
   fallbackPrice ''sol'' = Fin 240"
  by (simp add: getPrice_netDown fallbackPrice_def defaultPrices_def num_truthy_def)

lemmas eval_net = callAPI_def API_fetch_def fetch_count_def delay_def retryAttempts_def
  retryDelay_def config_timeout_def baseURL_def Let_def

lemma netTradesOnly_trades:
  "callAPI netTradesOnly ''/api/v3/trades?symbol=BTCUSDT&limit=1000'' world0 =
     (JArr [rawLarge], \<lparr>storage = (\<lambda>k. None), clock = 120,
        trace = [Fetch ''https://api.binance.com/api/v3/trades?symbol=BTCUSDT&limit=1000'' []]\<rparr>)"
  by (simp add: eval_net fetchWithRetry.simps netTradesOnly_def world0_def)

lemma netTradesOnly_ticker:
  "fst (fetchWithRetry netTradesOnly (baseURL @ ''/api/v3/ticker/price?symbol=BTCUSDT'') []
     retryAttempts w) = Inl NetworkError"
  by (simp add: eval_net fetchWithRetry.simps netTradesOnly_def)

lemma getLargeTransactions_try_result:
  assumes "symbols ch = Some symbol"
    and "callAPI net (''/api/v3/trades?symbol='' @ symbol @ ''&limit=1000'') w = (trades, w1)"
    and "fst (callAPI net (''/api/v3/ticker/price?symbol='' @ symbol) w1) = ticker"
    and "priceRead E ticker = Inr currentPrice"
    and "processTrades E ch trades currentPrice = Inr txs"
  shows "fst (getLargeTransactions_try net E ch limit w) = Inr (VTxs (sortAndLimit txs limit))"
  using assms
  by (auto simp: getLargeTransactions_try_def Let_def split: prod.splits sum.splits)

lemma processTrades_rawLarge:
  "map amountUsd (case processTrades engine0 ''btc'' (JArr [rawLarge]) currentPrice of
      Inr txs \<Rightarrow> sortAndLimit txs 20 | Inl e \<Rightarrow> []) = [Fin 150000]"
  by (simp add: processTrades_def processTrade_def rawLarge_def thenE_def minUSD_def
      engine0_def Let_def sortAndLimit_def js_sort_def slice0_def parseFloat_def
      templateText_def newDate_def)

text \<open>
  C5, as the claim states it, fails when only the price request fails: here the trades
  request succeeds with one large trade and the price request is rejected three times;
  the failure is absorbed by \<open>callAPI\<close> and the operation returns the large trade, not
  an empty list.
\<close>

theorem getLargeTransactions_price_failure:
  "fst (fetchWithRetry netTradesOnly (baseURL @ ''/api/v3/ticker/price?symbol=BTCUSDT'') []
     retryAttempts (snd (callAPI netTradesOnly ''/api/v3/trades?symbol=BTCUSDT&limit=1000'' world0)))
     = Inl NetworkError \<and>
   fst (getLargeTransactions netTradesOnly engine0 ''btc'' 20 world0) \<noteq> Inr (VTxs []) \<and>
   map amountUsd (case fst (getLargeTransactions netTradesOnly engine0 ''btc'' 20 world0) of
       Inr (VTxs txs) \<Rightarrow> txs | _ \<Rightarrow> []) = [Fin 150000]"
proof -
  let ?w1 = "snd (callAPI netTradesOnly ''/api/v3/trades?symbol=BTCUSDT&limit=1000'' world0)"
  have sym: "symbols ''btc'' = Some ''BTCUSDT''"
    by (simp add: symbols_def)
  have trades: "callAPI netTradesOnly (''/api/v3/trades?symbol='' @ ''BTCUSDT'' @ ''&limit=1000'') world0
      = (JArr [rawLarge], ?w1)"
    using netTradesOnly_trades by simp
  have ticker: "fst (callAPI netTradesOnly (''/api/v3/ticker/price?symbol='' @ ''BTCUSDT'') ?w1) = JArr []"
    using callAPI_failed [of netTradesOnly "''/api/v3/ticker/price?symbol=BTCUSDT''" ?w1 NetworkError]
      netTradesOnly_ticker [of ?w1] by simp
  obtain txs where p: "processTrades engine0 ''btc'' (JArr [rawLarge]) NaN = Inr txs"
    by (auto simp: processTrades_def)
  have "fst (getLargeTransactions_try netTradesOnly engine0 ''btc'' 20 world0) =
      Inr (VTxs (sortAndLimit txs 20))"
    using ticker by (intro getLargeTransactions_try_result [OF sym trades refl _ p])
      (simp add: priceRead_empty)
  moreover have "snd (Cache_get (txCacheKey ''btc'' 20) world0) = world0"
    by (simp add: Cache_get_def world0_def)
  ultimately have r: "fst (getLargeTransactions netTradesOnly engine0 ''btc'' 20 world0) =
      Inr (VTxs (sortAndLimit txs 20))"
    by (auto simp: getLargeTransactions_miss [OF world0_miss] split: prod.splits sum.splits)
  have a: "map amountUsd (sortAndLimit txs 20) = [Fin 150000]"
    using processTrades_rawLarge [of NaN] p by simp
  from r a netTradesOnly_ticker [of ?w1] show ?thesis
    by auto
qed

text \<open>
  C5, amended. For every asset, limit, network and state, \<open>getLargeTransactions\<close> never
  rejects. On a cache miss, every error thrown inside its \<open>try\<close> block (an unsupported
  asset, a trades payload that cannot be iterated, a price payload that is \<open>null\<close>) is
  caught and the operation returns an empty list; and a failed trades request, which
  \<open>callAPI\<close> turns into an empty array, gives an empty list as well.
\<close>

theorem getLargeTransactions_failures:
  "(\<exists>v. fst (getLargeTransactions net E ch limit w) = Inr v) \<and>
   (cacheMiss (txCacheKey ch limit) w \<and>
    (\<exists>e. fst (getLargeTransactions_try net E ch limit
            (snd (Cache_get (txCacheKey ch limit) w))) = Inl e) \<longrightarrow>
      fst (getLargeTransactions net E ch limit w) = Inr (VTxs [])) \<and>
   (cacheMiss (txCacheKey ch limit) w \<and> symbols ch = None \<longrightarrow>
      fst (getLargeTransactions net E ch limit w) = Inr (VTxs [])) \<and>
   (\<forall>symbol. cacheMiss (txCacheKey ch limit) w \<and> symbols ch = Some symbol \<and>
      (\<exists>e. fst (fetchWithRetry net
              (baseURL @ ''/api/v3/trades?symbol='' @ symbol @ ''&limit=1000'') [] retryAttempts
              (snd (Cache_get (txCacheKey ch limit) w))) = Inl e) \<longrightarrow>
      fst (getLargeTransactions net E ch limit w) = Inr (VTxs []))"
proof (intro conjI allI impI)
  show "\<exists>v. fst (getLargeTransactions net E ch limit w) = Inr v"
    by (rule getLargeTransactions_fulfilled)
next
  assume "cacheMiss (txCacheKey ch limit) w \<and>
    (\<exists>e. fst (getLargeTransactions_try net E ch limit
            (snd (Cache_get (txCacheKey ch limit) w))) = Inl e)"
  then show "fst (getLargeTransactions net E ch limit w) = Inr (VTxs [])"
    by (auto simp: getLargeTransactions_miss split: prod.splits sum.splits)
next
  assume "cacheMiss (txCacheKey ch limit) w \<and> symbols ch = None"
  then show "fst (getLargeTransactions net E ch limit w) = Inr (VTxs [])"
    by (auto simp: getLargeTransactions_miss getLargeTransactions_try_def
        split: prod.splits sum.splits)
next
  fix symbol
  assume a: "cacheMiss (txCacheKey ch limit) w \<and> symbols ch = Some symbol \<and>
      (\<exists>e. fst (fetchWithRetry net
              (baseURL @ ''/api/v3/trades?symbol='' @ symbol @ ''&limit=1000'') [] retryAttempts
              (snd (Cache_get (txCacheKey ch limit) w))) = Inl e)"
  then obtain e where "fst (fetchWithRetry net
              (baseURL @ ''/api/v3/trades?symbol='' @ symbol @ ''&limit=1000'') [] retryAttempts
              (snd (Cache_get (txCacheKey ch limit) w))) = Inl e"
    by blast
  from getLargeTransactions_try_trades_failed [OF _ this, of ch E limit] a
  show "fst (getLargeTransactions net E ch limit w) = Inr (VTxs [])"
    by (auto simp: getLargeTransactions_miss split: prod.splits sum.splits)
qed

theorem getLargeTransactions_failures_witness:
  "fst (getLargeTransactions netDown engine0 ''doge'' 20 world0) = Inr (VTxs []) \<and>
   fst (getLargeTransactions netDown engine0 ''btc'' 20 world0) = Inr (VTxs [])"
proof -
  have thrown: "fst (getLargeTransactions_try netDown engine0 ''doge'' 20
      (snd (Cache_get (txCacheKey ''doge'' 20) world0))) = Inl (UnsupportedAsset ''doge'')"
    by (simp add: getLargeTransactions_try_def symbols_def)
  have none: "symbols ''doge'' = None"
    by (simp add: symbols_def)
  have sym: "symbols ''btc'' = Some ''BTCUSDT''"
    by (simp add: symbols_def)
  have down: "\<exists>e. fst (fetchWithRetry netDown
       (baseURL @ ''/api/v3/trades?symbol='' @ ''BTCUSDT'' @ ''&limit=1000'') [] retryAttempts
       (snd (Cache_get (txCacheKey ''btc'' 20) world0))) = Inl e"
    by (rule netDown_retry_fails)
  from getLargeTransactions_failures [of netDown engine0 "''doge''" 20 world0]
    getLargeTransactions_failures [of netDown engine0 "''btc''" 20 world0]
    thrown none sym down world0_miss
  show ?thesis
    by blast
qed

lemma getLargeTransactions_cached_empty:
  assumes "storage w (txCacheKey ch limit) = Some item" and "clock w \<le> expiry item"
    and "item_value item = VTxs []"
  shows "getLargeTransactions net E ch limit w = (Inr (VTxs []), w)"
  using assms by (simp add: getLargeTransactions_def Cache_get_def)

text \<open>When \<open>parseFloat(ticker.price)\<close> throws.\<close>

lemma priceRead_throws_iff:
  "(\<exists>err. priceRead E ticker = Inl err) \<longleftrightarrow>
   ticker = JNull \<or> ticker = JUndefined \<or>
   (\<exists>p. getProp ticker ''price'' = Inr p \<and> toStringThrows p)"
  by (cases ticker) (auto simp: priceRead_def thenE_def parseFloat_def)

text \<open>A price that is an object with an own \<open>toString\<close> property cannot be read.\<close>

lemma priceRead_own_toString:
  "priceRead E (JObj [(''price'', JObj [(''toString'', JNum (Fin 0))])]) = Inl TypeError"
  by (simp add: priceRead_def thenE_def parseFloat_def)

lemma netNullTicker_trades:
  "fst (fetchWithRetry netNullTicker (baseURL @ ''/api/v3/trades?symbol=BTCUSDT&limit=1000'') []
     retryAttempts w) = Inl NetworkError"
  by (simp add: eval_net fetchWithRetry.simps netNullTicker_def)

lemma netNullTicker_ticker:
  "fst (callAPI netNullTicker ''/api/v3/ticker/price?symbol=BTCUSDT'' w) = JNull"
  by (simp add: eval_net fetchWithRetry.simps netNullTicker_def)

text \<open>
  C10, as the claim states it, fails when the price request resolves to \<open>null\<close>: the
  trades request is rejected three times, \<open>ticker.price\<close> then throws, the \<open>catch\<close>
  returns an empty list, and nothing is stored under the key.
\<close>

theorem failed_trades_null_price_not_cached:
  "fst (fetchWithRetry netNullTicker (baseURL @ ''/api/v3/trades?symbol=BTCUSDT&limit=1000'') []
     retryAttempts world0) = Inl NetworkError \<and>
   fst (getLargeTransactions netNullTicker engine0 ''btc'' 20 world0) = Inr (VTxs []) \<and>
   storage (snd (getLargeTransactions netNullTicker engine0 ''btc'' 20 world0))
     (txCacheKey ''btc'' 20) = None"
proof -
  let ?trades = "''/api/v3/trades?symbol=BTCUSDT&limit=1000''"
  let ?ticker = "''/api/v3/ticker/price?symbol=BTCUSDT''"
  obtain trades w1 where c1: "callAPI netNullTicker ?trades world0 = (trades, w1)"
    by (cases "callAPI netNullTicker ?trades world0")
  obtain ticker w2 where c2: "callAPI netNullTicker ?ticker w1 = (ticker, w2)"
    by (cases "callAPI netNullTicker ?ticker w1")
  have n: "ticker = JNull"
    using netNullTicker_ticker [of w1] c2 by simp
  have s: "storage w2 = storage world0"
    using callAPI_storage [of netNullTicker ?trades world0]
      callAPI_storage [of netNullTicker ?ticker w1] c1 c2 by simp
  have body: "getLargeTransactions_try netNullTicker engine0 ''btc'' 20 world0 = (Inl TypeError, w2)"
    using c1 c2 n by (simp add: getLargeTransactions_try_def symbols_def priceRead_def thenE_def)
  have w0: "snd (Cache_get (txCacheKey ''btc'' 20) world0) = world0"
    by (simp add: Cache_get_def world0_def)
  have "getLargeTransactions netNullTicker engine0 ''btc'' 20 world0 = (Inr (VTxs []), w2)"
    using body w0 by (simp add: getLargeTransactions_miss [OF world0_miss])
  with s netNullTicker_trades [of world0] show ?thesis
    by (simp add: world0_def)
qed

text \<open>
  C10, amended. On a cache miss for a supported asset whose trades request fails (all
  attempts), \<open>getLargeTransactions\<close> returns an empty list, and the list is cached
  exactly when \<open>parseFloat(ticker.price)\<close> does not throw on the answer to the price
  request. If it does not throw, the empty list is stored under the asset+limit key with
  expiry one minute after the clock at that moment, and in every later state in which
  that entry is still in the store and the clock is at most that expiry, a call for the
  same asset and limit returns the empty list and leaves the whole state, the trace of
  network requests included, as it was. If it throws (the payload is \<open>null\<close>, or its
  price cannot be converted to a string), nothing is stored: the store is the one the
  cache lookup left.
\<close>

theorem failed_trades_negatively_cached:
  assumes "cacheMiss (txCacheKey ch limit) w"
    and "symbols ch = Some symbol"
    and "fst (fetchWithRetry net (baseURL @ ''/api/v3/trades?symbol='' @ symbol @ ''&limit=1000'')
           [] retryAttempts (snd (Cache_get (txCacheKey ch limit) w))) = Inl e"
    and "fst (callAPI net (''/api/v3/ticker/price?symbol='' @ symbol)
           (snd (callAPI net (''/api/v3/trades?symbol='' @ symbol @ ''&limit=1000'')
              (snd (Cache_get (txCacheKey ch limit) w))))) = ticker"
    and "getLargeTransactions net E ch limit w = (r, w')"
  shows "r = Inr (VTxs []) \<and>
         ((\<exists>n. priceRead E ticker = Inr n) \<longrightarrow>
            storage w' (txCacheKey ch limit) =
              Some \<lparr>item_value = VTxs [], expiry = clock w' + 60000\<rparr> \<and>
            (\<forall>net' E' w''. storage w'' (txCacheKey ch limit) = storage w' (txCacheKey ch limit) \<and>
                 clock w'' \<le> clock w' + 60000 \<longrightarrow>
               getLargeTransactions net' E' ch limit w'' = (Inr (VTxs []), w''))) \<and>
         ((\<exists>err. priceRead E ticker = Inl err) \<longrightarrow>
            storage w' = storage (snd (Cache_get (txCacheKey ch limit) w)))"
proof -
  let ?key = "txCacheKey ch limit"
  let ?w0 = "snd (Cache_get ?key w)"
  let ?trades = "''/api/v3/trades?symbol='' @ symbol @ ''&limit=1000''"
  let ?ticker = "''/api/v3/ticker/price?symbol='' @ symbol"
  obtain trades w1 where c1: "callAPI net ?trades ?w0 = (trades, w1)"
    by (cases "callAPI net ?trades ?w0")
  have t: "trades = JArr []"
    using callAPI_failed [of net ?trades ?w0 e] assms(3) c1 by simp
  obtain w2 where c2: "callAPI net ?ticker w1 = (ticker, w2)"
    using assms(4) c1 by (cases "callAPI net ?ticker w1") simp
  have s2: "storage w2 = storage ?w0"
    using callAPI_storage [of net ?trades ?w0] callAPI_storage [of net ?ticker w1] c1 c2 by simp
  have body: "getLargeTransactions_try net E ch limit ?w0 =
      (case priceRead E ticker of
         Inl err \<Rightarrow> (Inl err, w2)
       | Inr n \<Rightarrow> (Inr (VTxs []), Cache_set ?key (VTxs []) (60 * 1000) w2))"
    using assms(2) c1 c2 t
    by (simp add: getLargeTransactions_try_def processTrades_empty sortAndLimit_Nil
        split: sum.splits)
  have res: "r = Inr (VTxs [])"
    using assms(5) body
    by (auto simp: getLargeTransactions_miss [OF assms(1)] split: sum.splits)
  have cached: "storage w' ?key = Some \<lparr>item_value = VTxs [], expiry = clock w' + 60000\<rparr> \<and>
      (\<forall>net' E' w''. storage w'' ?key = storage w' ?key \<and> clock w'' \<le> clock w' + 60000 \<longrightarrow>
         getLargeTransactions net' E' ch limit w'' = (Inr (VTxs []), w''))"
    if "\<exists>n. priceRead E ticker = Inr n"
  proof -
    from that obtain n where "priceRead E ticker = Inr n"
      by blast
    then have w': "w' = Cache_set ?key (VTxs []) (60 * 1000) w2"
      using assms(5) body by (simp add: getLargeTransactions_miss [OF assms(1)])
    then have stored: "storage w' ?key = Some \<lparr>item_value = VTxs [], expiry = clock w' + 60000\<rparr>"
      by (simp add: Cache_set_def)
    have "getLargeTransactions net' E' ch limit w'' = (Inr (VTxs []), w'')"
      if "storage w'' ?key = storage w' ?key \<and> clock w'' \<le> clock w' + 60000" for net' E' w''
      using that stored
      by (intro getLargeTransactions_cached_empty
            [of w'' ch limit "\<lparr>item_value = VTxs [], expiry = clock w' + 60000\<rparr>"]) simp_all
    with stored show ?thesis
      by blast
  qed
  have thrown: "storage w' = storage ?w0" if "\<exists>err. priceRead E ticker = Inl err"
  proof -
    from that obtain err where "priceRead E ticker = Inl err"
      by blast
    then have "w' = w2"
      using assms(5) body by (simp add: getLargeTransactions_miss [OF assms(1)])
    with s2 show ?thesis
      by simp
  qed
  from res cached thrown show ?thesis
    by blast
qed

theorem failed_trades_negatively_cached_witness:
  "fst (getLargeTransactions netDown engine0 ''btc'' 20 world0) = Inr (VTxs []) \<and>
   fst (getLargeTransactions netTradesOnly engine0 ''btc'' 20
     ((snd (getLargeTransactions netDown engine0 ''btc'' 20 world0))
        \<lparr>clock := clock (snd (getLargeTransactions netDown engine0 ''btc'' 20 world0)) + 60000\<rparr>))
     = Inr (VTxs []) \<and>
   trace (snd (getLargeTransactions netTradesOnly engine0 ''btc'' 20
     ((snd (getLargeTransactions netDown engine0 ''btc'' 20 world0))
        \<lparr>clock := clock (snd (getLargeTransactions netDown engine0 ''btc'' 20 world0)) + 60000\<rparr>)))
     = trace (snd (getLargeTransactions netDown engine0 ''btc'' 20 world0)) \<and>
   storage (snd (getLargeTransactions netNullTicker engine0 ''btc'' 20 world0)) = (\<lambda>k. None)"
proof -
  let ?key = "txCacheKey ''btc'' 20"
  let ?w0 = "snd (Cache_get ?key world0)"
  let ?trades = "''/api/v3/trades?symbol='' @ ''BTCUSDT'' @ ''&limit=1000''"
  let ?ticker = "''/api/v3/ticker/price?symbol='' @ ''BTCUSDT''"
  have sym: "symbols ''btc'' = Some ''BTCUSDT''"
    by (simp add: symbols_def)
  have w0: "?w0 = world0"
    by (simp add: Cache_get_def world0_def)
  \<comment> \<open>the network is down: the price reads as NaN and the empty list is cached\<close>
  obtain r w' where g: "getLargeTransactions netDown engine0 ''btc'' 20 world0 = (r, w')"
    by (cases "getLargeTransactions netDown engine0 ''btc'' 20 world0")
  obtain e where f: "fst (fetchWithRetry netDown (baseURL @ ?trades) [] retryAttempts ?w0) = Inl e"
    using netDown_retry_fails by blast
  obtain e' where "fst (fetchWithRetry netDown (baseURL @ ?ticker) [] retryAttempts
      (snd (callAPI netDown ?trades ?w0))) = Inl e'"
    using netDown_retry_fails by blast
  then have t: "fst (callAPI netDown ?ticker (snd (callAPI netDown ?trades ?w0))) = JArr []"
    by (rule callAPI_failed)
  have readable: "\<exists>n. priceRead engine0 (JArr []) = Inr n"
    by (simp add: priceRead_empty)
  from failed_trades_negatively_cached [OF world0_miss sym f t g] readable
  have r: "r = Inr (VTxs [])"
    and later: "\<And>net' E' w''. storage w'' ?key = storage w' ?key \<and> clock w'' \<le> clock w' + 60000 \<Longrightarrow>
      getLargeTransactions net' E' ''btc'' 20 w'' = (Inr (VTxs []), w'')"
    by blast+
  have hit: "getLargeTransactions netTradesOnly engine0 ''btc'' 20 (w'\<lparr>clock := clock w' + 60000\<rparr>) =
      (Inr (VTxs []), w'\<lparr>clock := clock w' + 60000\<rparr>)"
    by (rule later) simp
  \<comment> \<open>the price payload is null: reading it throws and nothing is stored\<close>
  obtain r2 w2' where g2: "getLargeTransactions netNullTicker engine0 ''btc'' 20 world0 = (r2, w2')"
    by (cases "getLargeTransactions netNullTicker engine0 ''btc'' 20 world0")
  have f2: "fst (fetchWithRetry netNullTicker (baseURL @ ?trades) [] retryAttempts ?w0) = Inl NetworkError"
    using netNullTicker_trades [of ?w0] by simp
  have t2: "fst (callAPI netNullTicker ?ticker (snd (callAPI netNullTicker ?trades ?w0))) = JNull"
    using netNullTicker_ticker [of "snd (callAPI netNullTicker ?trades ?w0)"] by simp
  have throws: "\<exists>err. priceRead engine0 JNull = Inl err"
    by (simp add: priceRead_def thenE_def)
  from failed_trades_negatively_cached [OF world0_miss sym f2 t2 g2] throws
  have "storage w2' = storage ?w0"
    by blast
  then have none: "storage w2' = (\<lambda>k. None)"
    unfolding w0 by (simp add: world0_def)
  from g r hit g2 none show ?thesis
    by simp
qed

lemma getPrice_try_storage_indep:
  "fst (getPrice_try net E ch (w\<lparr>storage := s\<rparr>)) = fst (getPrice_try net E ch w) \<and>
   trace (snd (getPrice_try net E ch (w\<lparr>storage := s\<rparr>))) = trace (snd (getPrice_try net E ch w)) \<and>
   clock (snd (getPrice_try net E ch (w\<lparr>storage := s\<rparr>))) = clock (snd (getPrice_try net E ch w))"
  by (simp add: getPrice_try_def callAPI_storage_indep Let_def Cache_set_def
      split: prod.splits sum.splits)

lemma getLargeTransactions_try_storage_indep:
  "fst (getLargeTransactions_try net E ch limit (w\<lparr>storage := s\<rparr>)) =
     fst (getLargeTransactions_try net E ch limit w) \<and>
   trace (snd (getLargeTransactions_try net E ch limit (w\<lparr>storage := s\<rparr>))) =
     trace (snd (getLargeTransactions_try net E ch limit w)) \<and>
   clock (snd (getLargeTransactions_try net E ch limit (w\<lparr>storage := s\<rparr>))) =
     clock (snd (getLargeTransactions_try net E ch limit w))"
  by (simp add: getLargeTransactions_try_def callAPI_storage_indep Let_def Cache_set_def
      split: prod.splits sum.splits option.splits)

lemma getPrice_try_trace:
  "\<exists>rest. trace (snd (getPrice_try net E ch w)) =
     trace w @ Fetch (baseURL @ ''/api/v3/ticker/price?symbol='' @
       (case symbols ch of None \<Rightarrow> ''undefined'' | Some s \<Rightarrow> s)) [] # rest"
  using callAPI_trace [of net "''/api/v3/ticker/price?symbol='' @
       (case symbols ch of None \<Rightarrow> ''undefined'' | Some s \<Rightarrow> s)" w]
  by (auto simp: getPrice_try_def Let_def Cache_set_def split: prod.splits sum.splits)

lemma getLargeTransactions_try_trace:
  assumes "symbols ch = Some symbol"
  shows "\<exists>rest. trace (snd (getLargeTransactions_try net E ch limit w)) =
     trace w @ Fetch (baseURL @ ''/api/v3/trades?symbol='' @ symbol @ ''&limit=1000'') [] # rest"
proof -
  obtain trades w1 where c1:
    "callAPI net (''/api/v3/trades?symbol='' @ symbol @ ''&limit=1000'') w = (trades, w1)"
    by (cases "callAPI net (''/api/v3/trades?symbol='' @ symbol @ ''&limit=1000'') w")
  obtain ticker w2 where c2: "callAPI net (''/api/v3/ticker/price?symbol='' @ symbol) w1 = (ticker, w2)"
    by (cases "callAPI net (''/api/v3/ticker/price?symbol='' @ symbol) w1")
  obtain rest1 where r1: "trace w1 =
      trace w @ Fetch (baseURL @ ''/api/v3/trades?symbol='' @ symbol @ ''&limit=1000'') [] # rest1"
    using callAPI_trace [of net "''/api/v3/trades?symbol='' @ symbol @ ''&limit=1000''" w] c1
    by auto
  obtain rest2 where r2: "trace w2 = trace w1 @ rest2"
    using callAPI_trace [of net "''/api/v3/ticker/price?symbol='' @ symbol" w1] c2 by auto
  have "trace (snd (getLargeTransactions_try net E ch limit w)) = trace w2"
    using assms c1 c2
    by (simp add: getLargeTransactions_try_def Let_def Cache_set_def split: sum.splits)
  with r1 r2 show ?thesis
    by simp
qed

text \<open>The handlers after the \<open>try\<close> blocks keep the state reached.\<close>

lemma getPrice_falsy:
  assumes "storage w (priceCacheKey ch) = Some item" and "clock w \<le> expiry item"
    and "\<not> truthy (item_value item)"
  shows "fst (getPrice net E ch w) = fst (getPrice net E ch (Cache_delete (priceCacheKey ch) w)) \<and>
         trace (snd (getPrice net E ch w)) =
           trace (snd (getPrice net E ch (Cache_delete (priceCacheKey ch) w))) \<and>
         (\<exists>rest. trace (snd (getPrice net E ch w)) =
            trace w @ Fetch (baseURL @ ''/api/v3/ticker/price?symbol='' @
              (case symbols ch of None \<Rightarrow> ''undefined'' | Some s \<Rightarrow> s)) [] # rest)"
proof -
  let ?key = "priceCacheKey ch"
  let ?w' = "w\<lparr>storage := (storage w)(?key := None)\<rparr>"
  have g: "Cache_get ?key w = (Some (item_value item), w)"
    using assms by (simp add: Cache_get_def)
  have g': "Cache_get ?key ?w' = (None, ?w')"
    by (simp add: Cache_get_def)
  have a: "getPrice net E ch w =
      (case getPrice_try net E ch w of
         (Inl err, w1) \<Rightarrow> (Inr (VNum (fallbackPrice ch)), w1)
       | (Inr v, w1) \<Rightarrow> (Inr v, w1))"
    using g assms(3) by (simp add: getPrice_def)
  have b: "getPrice net E ch (Cache_delete ?key w) =
      (case getPrice_try net E ch ?w' of
         (Inl err, w1) \<Rightarrow> (Inr (VNum (fallbackPrice ch)), w1)
       | (Inr v, w1) \<Rightarrow> (Inr v, w1))"
    using g' by (simp add: getPrice_def Cache_delete_def)
  have t: "trace (snd (getPrice net E ch w)) = trace (snd (getPrice_try net E ch w))"
    by (simp add: a split: prod.splits sum.splits)
  from getPrice_try_storage_indep [where net = net and E = E and ch = ch and w = w
      and s = "(storage w)(?key := None)"]
    getPrice_try_trace [of net E ch w] t
  show ?thesis
    by (auto simp: a b split: prod.splits sum.splits)
qed

lemma getLargeTransactions_falsy:
  assumes "storage w (txCacheKey ch limit) = Some item" and "clock w \<le> expiry item"
    and "\<not> truthy (item_value item)"
  shows "fst (getLargeTransactions net E ch limit w) =
           fst (getLargeTransactions net E ch limit (Cache_delete (txCacheKey ch limit) w)) \<and>
         trace (snd (getLargeTransactions net E ch limit w)) =
           trace (snd (getLargeTransactions net E ch limit (Cache_delete (txCacheKey ch limit) w))) \<and>
         (\<forall>symbol. symbols ch = Some symbol \<longrightarrow>
            (\<exists>rest. trace (snd (getLargeTransactions net E ch limit w)) =
               trace w @ Fetch (baseURL @ ''/api/v3/trades?symbol='' @ symbol @ ''&limit=1000'') []
                 # rest))"
proof -
  let ?key = "txCacheKey ch limit"
  let ?w' = "w\<lparr>storage := (storage w)(?key := None)\<rparr>"
  have g: "Cache_get ?key w = (Some (item_value item), w)"
    using assms by (simp add: Cache_get_def)
  have g': "Cache_get ?key ?w' = (None, ?w')"
    by (simp add: Cache_get_def)
  have a: "getLargeTransactions net E ch limit w =
      (case getLargeTransactions_try net E ch limit w of
         (Inl err, w1) \<Rightarrow> (Inr (VTxs []), w1)
       | (Inr txs, w1) \<Rightarrow> (Inr txs, w1))"
    using g assms(3) by (simp add: getLargeTransactions_def)
  have b: "getLargeTransactions net E ch limit (Cache_delete ?key w) =
      (case getLargeTransactions_try net E ch limit ?w' of
         (Inl err, w1) \<Rightarrow> (Inr (VTxs []), w1)
       | (Inr txs, w1) \<Rightarrow> (Inr txs, w1))"
    using g' by (simp add: getLargeTransactions_def Cache_delete_def)
  have t: "trace (snd (getLargeTransactions net E ch limit w)) =
      trace (snd (getLargeTransactions_try net E ch limit w))"
    by (simp add: a split: prod.splits sum.splits)
  have same: "fst (getLargeTransactions net E ch limit w) =
           fst (getLargeTransactions net E ch limit (Cache_delete ?key w)) \<and>
         trace (snd (getLargeTransactions net E ch limit w)) =
           trace (snd (getLargeTransactions net E ch limit (Cache_delete ?key w)))"
    using getLargeTransactions_try_storage_indep [where net = net and E = E and ch = ch
        and limit = limit and w = w and s = "(storage w)(?key := None)"]
    by (auto simp: a b split: prod.splits sum.splits)
  from same t getLargeTransactions_try_trace [of ch _ net E limit w] show ?thesis
    by simp
qed

lemma getPrice_cached_empty:
  assumes "storage w (priceCacheKey ch) = Some item" and "clock w \<le> expiry item"
    and "item_value item = VTxs []"
  shows "getPrice net E ch w = (Inr (VTxs []), w)"
  using assms by (simp add: getPrice_def Cache_get_def)

text \<open>
  C9. The adapter's hit test is the truthiness of the cached value. The numbers \<open>0\<close> and
  NaN are falsy and an empty array is truthy. For every key that holds an unexpired entry
  with a falsy value, \<open>getPrice\<close> and \<open>getLargeTransactions\<close> proceed exactly as on a
  miss: they return what they return when the entry is absent, with the same network
  requests, and the first thing they do is request again (for \<open>getLargeTransactions\<close>:
  when the asset is supported, as on any miss). An unexpired entry holding an empty array
  is returned as a hit and the state is left as it was.
\<close>

theorem falsy_cached_value_is_a_miss:
  "\<not> truthy (VNum (Fin 0)) \<and> \<not> truthy (VNum NaN) \<and> truthy (VTxs []) \<and>
   (storage w (priceCacheKey ch) = Some item \<and> clock w \<le> expiry item \<and>
    \<not> truthy (item_value item) \<longrightarrow>
      fst (getPrice net E ch w) = fst (getPrice net E ch (Cache_delete (priceCacheKey ch) w)) \<and>
      trace (snd (getPrice net E ch w)) =
        trace (snd (getPrice net E ch (Cache_delete (priceCacheKey ch) w))) \<and>
      (\<exists>rest. trace (snd (getPrice net E ch w)) =
         trace w @ Fetch (baseURL @ ''/api/v3/ticker/price?symbol='' @
           (case symbols ch of None \<Rightarrow> ''undefined'' | Some s \<Rightarrow> s)) [] # rest)) \<and>
   (storage w (txCacheKey ch limit) = Some item \<and> clock w \<le> expiry item \<and>
    \<not> truthy (item_value item) \<longrightarrow>
      fst (getLargeTransactions net E ch limit w) =
        fst (getLargeTransactions net E ch limit (Cache_delete (txCacheKey ch limit) w)) \<and>
      trace (snd (getLargeTransactions net E ch limit w)) =
        trace (snd (getLargeTransactions net E ch limit (Cache_delete (txCacheKey ch limit) w))) \<and>
      (\<forall>symbol. symbols ch = Some symbol \<longrightarrow>
         (\<exists>rest. trace (snd (getLargeTransactions net E ch limit w)) =
            trace w @ Fetch (baseURL @ ''/api/v3/trades?symbol='' @ symbol @ ''&limit=1000'') []
              # rest))) \<and>
   (storage w (txCacheKey ch limit) = Some item \<and> clock w \<le> expiry item \<and>
    item_value item = VTxs [] \<longrightarrow>
      getLargeTransactions net E ch limit w = (Inr (VTxs []), w)) \<and>
   (storage w (priceCacheKey ch) = Some item \<and> clock w \<le> expiry item \<and>
    item_value item = VTxs [] \<longrightarrow>
      getPrice net E ch w = (Inr (VTxs []), w))"
proof (intro conjI impI)
  show "\<not> truthy (VNum (Fin 0))" "\<not> truthy (VNum NaN)" "truthy (VTxs [])"
    by (simp_all add: num_truthy_def)
next
  assume "storage w (priceCacheKey ch) = Some item \<and> clock w \<le> expiry item \<and>
    \<not> truthy (item_value item)"
  then have h: "storage w (priceCacheKey ch) = Some item" "clock w \<le> expiry item"
    "\<not> truthy (item_value item)"
    by simp_all
  show "fst (getPrice net E ch w) = fst (getPrice net E ch (Cache_delete (priceCacheKey ch) w))"
    "trace (snd (getPrice net E ch w)) =
        trace (snd (getPrice net E ch (Cache_delete (priceCacheKey ch) w)))"
    "\<exists>rest. trace (snd (getPrice net E ch w)) =
         trace w @ Fetch (baseURL @ ''/api/v3/ticker/price?symbol='' @
           (case symbols ch of None \<Rightarrow> ''undefined'' | Some s \<Rightarrow> s)) [] # rest"
    using getPrice_falsy [OF h] by blast+
next
  assume "storage w (txCacheKey ch limit) = Some item \<and> clock w \<le> expiry item \<and>
    \<not> truthy (item_value item)"
  then have h: "storage w (txCacheKey ch limit) = Some item" "clock w \<le> expiry item"
    "\<not> truthy (item_value item)"
    by simp_all
  show "fst (getLargeTransactions net E ch limit w) =
        fst (getLargeTransactions net E ch limit (Cache_delete (txCacheKey ch limit) w))"
    "trace (snd (getLargeTransactions net E ch limit w)) =
        trace (snd (getLargeTransactions net E ch limit (Cache_delete (txCacheKey ch limit) w)))"
    "\<forall>symbol. symbols ch = Some symbol \<longrightarrow>
         (\<exists>rest. trace (snd (getLargeTransactions net E ch limit w)) =
            trace w @ Fetch (baseURL @ ''/api/v3/trades?symbol='' @ symbol @ ''&limit=1000'') []
              # rest)"
    using getLargeTransactions_falsy [OF h] by blast+
next
  assume "storage w (txCacheKey ch limit) = Some item \<and> clock w \<le> expiry item \<and>
    item_value item = VTxs []"
  then show "getLargeTransactions net E ch limit w = (Inr (VTxs []), w)"
    using getLargeTransactions_cached_empty by blast
next
  assume "storage w (priceCacheKey ch) = Some item \<and> clock w \<le> expiry item \<and>
    item_value item = VTxs []"
  then show "getPrice net E ch w = (Inr (VTxs []), w)"
    using getPrice_cached_empty by blast
qed

theorem falsy_cached_value_is_a_miss_witness:
  "hd (trace (snd (getPrice netDown engine0 ''btc''
      (Cache_set (priceCacheKey ''btc'') (VNum NaN) 60000 world0)))) =
     Fetch ''https://api.binance.com/api/v3/ticker/price?symbol=BTCUSDT'' [] \<and>
   hd (trace (snd (getLargeTransactions netDown engine0 ''btc'' 20
      (Cache_set (txCacheKey ''btc'' 20) (VNum (Fin 0)) 60000 world0)))) =
     Fetch ''https://api.binance.com/api/v3/trades?symbol=BTCUSDT&limit=1000'' [] \<and>
   getLargeTransactions netDown engine0 ''btc'' 20
      (Cache_set (txCacheKey ''btc'' 20) (VTxs []) 60000 world0) =
     (Inr (VTxs []), Cache_set (txCacheKey ''btc'' 20) (VTxs []) 60000 world0) \<and>
   getPrice netDown engine0 ''btc'' (Cache_set (priceCacheKey ''btc'') (VTxs []) 60000 world0) =
     (Inr (VTxs []), Cache_set (priceCacheKey ''btc'') (VTxs []) 60000 world0)"
proof -
  let ?wp = "Cache_set (priceCacheKey ''btc'') (VNum NaN) 60000 world0"
  let ?wt = "Cache_set (txCacheKey ''btc'' 20) (VNum (Fin 0)) 60000 world0"
  let ?we = "Cache_set (txCacheKey ''btc'' 20) (VTxs []) 60000 world0"
  let ?wpe = "Cache_set (priceCacheKey ''btc'') (VTxs []) 60000 world0"
  have sym: "symbols ''btc'' = Some ''BTCUSDT''"
    by (simp add: symbols_def)
  have hp: "storage ?wp (priceCacheKey ''btc'') = Some \<lparr>item_value = VNum NaN, expiry = 60000\<rparr> \<and>
      clock ?wp \<le> expiry \<lparr>item_value = VNum NaN, expiry = 60000\<rparr> \<and>
      \<not> truthy (item_value \<lparr>item_value = VNum NaN, expiry = 60000\<rparr>)"
    by (simp add: Cache_set_def world0_def num_truthy_def)
  have ht: "storage ?wt (txCacheKey ''btc'' 20) = Some \<lparr>item_value = VNum (Fin 0), expiry = 60000\<rparr> \<and>
      clock ?wt \<le> expiry \<lparr>item_value = VNum (Fin 0), expiry = 60000\<rparr> \<and>
      \<not> truthy (item_value \<lparr>item_value = VNum (Fin 0), expiry = 60000\<rparr>)"
    by (simp add: Cache_set_def world0_def num_truthy_def)
  have he: "storage ?we (txCacheKey ''btc'' 20) = Some \<lparr>item_value = VTxs [], expiry = 60000\<rparr> \<and>
      clock ?we \<le> expiry \<lparr>item_value = VTxs [], expiry = 60000\<rparr> \<and>
      item_value \<lparr>item_value = VTxs [], expiry = 60000\<rparr> = VTxs []"
    by (simp add: Cache_set_def world0_def)
  have hpe: "storage ?wpe (priceCacheKey ''btc'') = Some \<lparr>item_value = VTxs [], expiry = 60000\<rparr> \<and>
      clock ?wpe \<le> expiry \<lparr>item_value = VTxs [], expiry = 60000\<rparr> \<and>
      item_value \<lparr>item_value = VTxs [], expiry = 60000\<rparr> = VTxs []"
    by (simp add: Cache_set_def world0_def)
  have tp: "trace ?wp = []" and tt: "trace ?wt = []"
    by (simp_all add: Cache_set_def world0_def)
  from falsy_cached_value_is_a_miss [where w = ?wp and ch = "''btc''" and net = netDown
      and E = engine0 and item = "\<lparr>item_value = VNum NaN, expiry = 60000\<rparr>"] hp
  obtain rest where "trace (snd (getPrice netDown engine0 ''btc'' ?wp)) =
      trace ?wp @ Fetch (baseURL @ ''/api/v3/ticker/price?symbol='' @
           (case symbols ''btc'' of None \<Rightarrow> ''undefined'' | Some s \<Rightarrow> s)) [] # rest"
    by blast
  then have 1: "hd (trace (snd (getPrice netDown engine0 ''btc'' ?wp))) =
     Fetch ''https://api.binance.com/api/v3/ticker/price?symbol=BTCUSDT'' []"
    by (simp add: tp sym baseURL_def)
  from falsy_cached_value_is_a_miss [where w = ?wt and ch = "''btc''" and limit = 20
      and net = netDown and E = engine0
      and item = "\<lparr>item_value = VNum (Fin 0), expiry = 60000\<rparr>"] ht sym
  obtain rest where "trace (snd (getLargeTransactions netDown engine0 ''btc'' 20 ?wt)) =
      trace ?wt @ Fetch (baseURL @ ''/api/v3/trades?symbol='' @ ''BTCUSDT'' @ ''&limit=1000'') []
        # rest"
    by blast
  then have 2: "hd (trace (snd (getLargeTransactions netDown engine0 ''btc'' 20 ?wt))) =
     Fetch ''https://api.binance.com/api/v3/trades?symbol=BTCUSDT&limit=1000'' []"
    by (simp add: tt baseURL_def)
  from falsy_cached_value_is_a_miss [where w = ?we and ch = "''btc''" and limit = 20
      and net = netDown and E = engine0
      and item = "\<lparr>item_value = VTxs [], expiry = 60000\<rparr>"] he
  have 3: "getLargeTransactions netDown engine0 ''btc'' 20 ?we = (Inr (VTxs []), ?we)"
    by blast
  from falsy_cached_value_is_a_miss [where w = ?wpe and ch = "''btc''"
      and net = netDown and E = engine0
      and item = "\<lparr>item_value = VTxs [], expiry = 60000\<rparr>"] hpe
  have 4: "getPrice netDown engine0 ''btc'' ?wpe = (Inr (VTxs []), ?wpe)"
    by blast
  from 1 2 3 4 show ?thesis
    by blast
qed

section \<open>Properties of the controller\<close>

lemma all_fail_callAPI:
  assumes "\<forall>url opts w'. \<exists>e. fst (API_fetch net url opts w') = Inl e"
  shows "fst (callAPI net endpoint w) = JArr []"
proof -
  have "\<forall>w'. \<exists>e. fst (API_fetch net (baseURL @ endpoint) [] w') = Inl e"
    using assms by blast
  then obtain e where "fst (fetchWithRetry net (baseURL @ endpoint) [] retryAttempts w) = Inl e"
    using fetchWithRetry_all_fail by blast
  then show ?thesis
    by (rule callAPI_failed)
qed

text \<open>
  With every request failing, a supported asset that is not in the cache gives an empty
  list, which is stored under the asset's key; no other key is touched.
\<close>

lemma getLargeTransactions_all_fail:
  assumes "\<forall>url opts w'. \<exists>e. fst (API_fetch net url opts w') = Inl e"
    and "symbols ch = Some symbol"
    and "storage w (txCacheKey ch limit) = None"
  shows "\<exists>item w'. getLargeTransactions net E ch limit w = (Inr (VTxs []), w') \<and>
           storage w' = (storage w)(txCacheKey ch limit \<mapsto> item)"
proof -
  let ?key = "txCacheKey ch limit"
  let ?trades = "''/api/v3/trades?symbol='' @ symbol @ ''&limit=1000''"
  let ?ticker = "''/api/v3/ticker/price?symbol='' @ symbol"
  have g: "Cache_get ?key w = (None, w)"
    using assms(3) by (simp add: Cache_get_def)
  obtain trades w1 where c1: "callAPI net ?trades w = (trades, w1)"
    by (cases "callAPI net ?trades w")
  obtain ticker w2 where c2: "callAPI net ?ticker w1 = (ticker, w2)"
    by (cases "callAPI net ?ticker w1")
  have t: "trades = JArr []" "ticker = JArr []"
    using all_fail_callAPI [OF assms(1), of ?trades w] all_fail_callAPI [OF assms(1), of ?ticker w1]
      c1 c2 by simp_all
  have s: "storage w2 = storage w"
    using callAPI_storage [of net ?trades w] callAPI_storage [of net ?ticker w1] c1 c2 by simp
  have "getLargeTransactions_try net E ch limit w =
      (Inr (VTxs []), Cache_set ?key (VTxs []) (60 * 1000) w2)"
    using assms(2) c1 c2 t
    by (simp add: getLargeTransactions_try_def processTrades_empty sortAndLimit_Nil
        priceRead_empty)
  then have "getLargeTransactions net E ch limit w =
      (Inr (VTxs []), Cache_set ?key (VTxs []) (60 * 1000) w2)"
    using g by (simp add: getLargeTransactions_def)
  moreover have "storage (Cache_set ?key (VTxs []) (60 * 1000) w2) =
      (storage w)(?key \<mapsto> \<lparr>item_value = VTxs [], expiry = clock w2 + 60 * 1000\<rparr>)"
    using s by (simp add: Cache_set_def)
  ultimately show ?thesis
    by blast
qed

lemma txCacheKey_20:
  "txCacheKey ''btc'' 20 = ''binance_btc_transactions_20''"
  "txCacheKey ''eth'' 20 = ''binance_eth_transactions_20''"
  "txCacheKey ''sol'' 20 = ''binance_sol_transactions_20''"
  by (simp_all add: txCacheKey_def show_int_def show_nat.simps)

lemma renderTransactions_empty:
  assumes "heap a (transactions a) = []"
  shows "visible (renderTransactions a) = EmptyPanel \<and>
         errorMessage (renderTransactions a) = errorMessage a \<and>
         isLoading (renderTransactions a) = isLoading a"
  using assms
  by (simp add: renderTransactions_def newArray_def sortInPlace_def showEmpty_def js_sort_def
      Let_def)

text \<open>
  With every request failing and nothing cached, the \<open>try\<close> block of \<open>loadData\<close>
  completes without an error: the three promises are fulfilled with empty lists, and the
  render step shows the empty panel.
\<close>

lemma loadData_try_all_fail:
  assumes "\<forall>url opts w'. \<exists>e. fst (API_fetch net url opts w') = Inl e"
    and "force \<or> storage w = (\<lambda>k. None)"
  shows "\<exists>a' w'. loadData_try net E force a w = (None, a', w') \<and>
           visible a' = EmptyPanel \<and> errorMessage a' = errorMessage a \<and>
           heap a' (transactions a') = []"
proof -
  let ?w0 = "if force then Cache_clear w else w"
  have s0: "storage ?w0 = (\<lambda>k. None)"
    using assms(2) by (auto simp: Cache_clear_def)
  obtain i1 w1 where
    b: "getLargeTransactions net E ''btc'' 20 ?w0 = (Inr (VTxs []), w1)" and
    s1: "storage w1 = (storage ?w0)(txCacheKey ''btc'' 20 \<mapsto> i1)"
    using getLargeTransactions_all_fail [OF assms(1), of "''btc''" "''BTCUSDT''" ?w0 20 E] s0
    by (auto simp: symbols_def)
  have "storage w1 (txCacheKey ''eth'' 20) = None"
    using s0 s1 by (simp add: txCacheKey_20)
  then obtain i2 w2 where
    e: "getLargeTransactions net E ''eth'' 20 w1 = (Inr (VTxs []), w2)" and
    s2: "storage w2 = (storage w1)(txCacheKey ''eth'' 20 \<mapsto> i2)"
    using getLargeTransactions_all_fail [OF assms(1), of "''eth''" "''ETHUSDT''" w1 20 E]
    by (auto simp: symbols_def)
  have "storage w2 (txCacheKey ''sol'' 20) = None"
    using s0 s1 s2 by (simp add: txCacheKey_20)
  then obtain i3 w3 where
    s: "getLargeTransactions net E ''sol'' 20 w2 = (Inr (VTxs []), w3)"
    using getLargeTransactions_all_fail [OF assms(1), of "''sol''" "''SOLUSDT''" w2 20 E]
    by (auto simp: symbols_def)
  let ?a1 = "(snd (newArray [] a))\<lparr>transactions := fst (newArray [] a)\<rparr>"
  have h: "heap ?a1 (transactions ?a1) = []"
    by (simp add: newArray_def)
  have p: "pushSettled (Inr (VTxs [])) ?a1 = Inr (?a1\<lparr>heap := heap ?a1\<rparr>)"
    using h by (simp add: fun_upd_idem)
  have r: "loadData_try net E force a w =
      (None, renderTransactions (?a1\<lparr>lastUpdate := Some (clock w3)\<rparr>), w3)"
    using b e s h
    by (simp add: loadData_try_def BitcoinService_getLargeTransactions_def
        EthereumService_getLargeTransactions_def SolanaService_getLargeTransactions_def
        Let_def fun_upd_idem split: prod.splits)
  have v: "visible (renderTransactions (?a1\<lparr>lastUpdate := Some (clock w3)\<rparr>)) = EmptyPanel \<and>
      errorMessage (renderTransactions (?a1\<lparr>lastUpdate := Some (clock w3)\<rparr>)) = errorMessage a"
    using renderTransactions_empty [of "?a1\<lparr>lastUpdate := Some (clock w3)\<rparr>"] h
    by (simp add: newArray_def)
  have hh: "heap (renderTransactions (?a1\<lparr>lastUpdate := Some (clock w3)\<rparr>))
      (transactions (renderTransactions (?a1\<lparr>lastUpdate := Some (clock w3)\<rparr>))) = []"
    by (simp add: renderTransactions_def newArray_def sortInPlace_def showEmpty_def js_sort_def
        Let_def)
  from r v hh show ?thesis
    by blast
qed

lemma loadData_all_fail:
  assumes "\<forall>url opts w'. \<exists>e. fst (API_fetch net url opts w') = Inl e"
    and "force \<or> storage w = (\<lambda>k. None)" and "\<not> isLoading a"
  shows "visible (fst (loadData net E force a w)) = EmptyPanel \<and>
         errorMessage (fst (loadData net E force a w)) = errorMessage a \<and>
         \<not> isLoading (fst (loadData net E force a w))"
proof -
  obtain a' w' where "loadData_try net E force (showLoading (a\<lparr>isLoading := True\<rparr>)) w = (None, a', w')"
    "visible a' = EmptyPanel" "errorMessage a' = errorMessage (showLoading (a\<lparr>isLoading := True\<rparr>))"
    using loadData_try_all_fail [OF assms(1,2)] by blast
  with assms(3) show ?thesis
    by (simp add: loadData_def showLoading_def)
qed

lemma getLargeTransactions_asset_down:
  assumes "symbols ch = Some symbol"
    and "\<forall>w'. \<exists>e. fst (API_fetch net
           (baseURL @ ''/api/v3/trades?symbol='' @ symbol @ ''&limit=1000'') [] w') = Inl e"
    and "\<forall>w'. \<exists>e. fst (API_fetch net
           (baseURL @ ''/api/v3/ticker/price?symbol='' @ symbol) [] w') = Inl e"
    and "storage w (txCacheKey ch limit) = None"
  shows "\<exists>item w'. getLargeTransactions net E ch limit w = (Inr (VTxs []), w') \<and>
           storage w' = (storage w)(txCacheKey ch limit \<mapsto> item)"
proof -
  let ?key = "txCacheKey ch limit"
  let ?trades = "''/api/v3/trades?symbol='' @ symbol @ ''&limit=1000''"
  let ?ticker = "''/api/v3/ticker/price?symbol='' @ symbol"
  have g: "Cache_get ?key w = (None, w)"
    using assms(4) by (simp add: Cache_get_def)
  obtain trades w1 where c1: "callAPI net ?trades w = (trades, w1)"
    by (cases "callAPI net ?trades w")
  obtain ticker w2 where c2: "callAPI net ?ticker w1 = (ticker, w2)"
    by (cases "callAPI net ?ticker w1")
  obtain e1 where "fst (fetchWithRetry net (baseURL @ ?trades) [] retryAttempts w) = Inl e1"
    using fetchWithRetry_all_fail [OF assms(2)] by auto
  then have t1: "trades = JArr []"
    using callAPI_failed [of net ?trades w e1] c1 by simp
  obtain e2 where "fst (fetchWithRetry net (baseURL @ ?ticker) [] retryAttempts w1) = Inl e2"
    using fetchWithRetry_all_fail [OF assms(3)] by auto
  then have t2: "ticker = JArr []"
    using callAPI_failed [of net ?ticker w1 e2] c2 by simp
  have s: "storage w2 = storage w"
    using callAPI_storage [of net ?trades w] callAPI_storage [of net ?ticker w1] c1 c2 by simp
  have "getLargeTransactions_try net E ch limit w =
      (Inr (VTxs []), Cache_set ?key (VTxs []) (60 * 1000) w2)"
    using assms(1) c1 c2 t1 t2
    by (simp add: getLargeTransactions_try_def processTrades_empty sortAndLimit_Nil
        priceRead_empty)
  then have "getLargeTransactions net E ch limit w =
      (Inr (VTxs []), Cache_set ?key (VTxs []) (60 * 1000) w2)"
    using g by (simp add: getLargeTransactions_def)
  moreover have "storage (Cache_set ?key (VTxs []) (60 * 1000) w2) =
      (storage w)(?key \<mapsto> \<lparr>item_value = VTxs [], expiry = clock w2 + 60 * 1000\<rparr>)"
    using s by (simp add: Cache_set_def)
  ultimately show ?thesis
    by blast
qed

lemma netTradesOnly_fails:
  "url \<noteq> ''https://api.binance.com/api/v3/trades?symbol=BTCUSDT&limit=1000'' \<Longrightarrow>
   fst (API_fetch netTradesOnly url opts w') = Inl NetworkError"
  by (simp add: API_fetch_def netTradesOnly_def config_timeout_def)

lemma netTradesOnly_btc:
  "\<exists>tx item w1. getLargeTransactions netTradesOnly engine0 ''btc'' 20 world0 = (Inr (VTxs [tx]), w1) \<and>
     chain tx = ''btc'' \<and> amountUsd tx = Fin 150000 \<and>
     storage w1 = (\<lambda>k. None)(txCacheKey ''btc'' 20 \<mapsto> item)"
proof -
  let ?trades = "''/api/v3/trades?symbol=BTCUSDT&limit=1000''"
  let ?ticker = "''/api/v3/ticker/price?symbol=BTCUSDT''"
  obtain w1 where c1: "callAPI netTradesOnly ?trades world0 = (JArr [rawLarge], w1)"
    using netTradesOnly_trades by blast
  obtain ticker w2 where c2: "callAPI netTradesOnly ?ticker w1 = (ticker, w2)"
    by (cases "callAPI netTradesOnly ?ticker w1")
  have t2: "ticker = JArr []"
    using callAPI_failed [of netTradesOnly ?ticker w1 NetworkError] netTradesOnly_ticker [of w1] c2
    by simp
  have s: "storage w2 = (\<lambda>k. None)"
    using callAPI_storage [of netTradesOnly ?trades world0]
      callAPI_storage [of netTradesOnly ?ticker w1] c1 c2 by (simp add: world0_def)
  obtain tx where p: "processTrades engine0 ''btc'' (JArr [rawLarge]) NaN = Inr [tx]"
    and tx: "chain tx = ''btc''" "amountUsd tx = Fin 150000"
    by (simp add: processTrades_def processTrade_def rawLarge_def thenE_def minUSD_def
        engine0_def Let_def parseFloat_def templateText_def newDate_def)
  have sl: "sortAndLimit [tx] 20 = [tx]"
    by (simp add: sortAndLimit_def js_sort_def slice0_def)
  have "getLargeTransactions_try netTradesOnly engine0 ''btc'' 20 world0 =
      (Inr (VTxs [tx]), Cache_set (txCacheKey ''btc'' 20) (VTxs [tx]) (60 * 1000) w2)"
    using c1 c2 t2 p sl
    by (simp add: getLargeTransactions_try_def symbols_def Let_def priceRead_empty)
  then have "getLargeTransactions netTradesOnly engine0 ''btc'' 20 world0 =
      (Inr (VTxs [tx]), Cache_set (txCacheKey ''btc'' 20) (VTxs [tx]) (60 * 1000) w2)"
    by (simp add: getLargeTransactions_def Cache_get_def world0_def)
  moreover have "storage (Cache_set (txCacheKey ''btc'' 20) (VTxs [tx]) (60 * 1000) w2) =
      (\<lambda>k. None)(txCacheKey ''btc'' 20 \<mapsto> \<lparr>item_value = VTxs [tx], expiry = clock w2 + 60 * 1000\<rparr>)"
    using s by (simp add: Cache_set_def)
  ultimately show ?thesis
    using tx by blast
qed

text \<open>
  The other half of the scenario: when the BTC request alone succeeds, with one large
  trade, the controller shows the transactions panel with that one BTC transaction.
\<close>

lemma loadData_partial_failure:
  "visible (fst (loadData netTradesOnly engine0 False app0 world0)) = TransactionsPanel \<and>
   map chain (cards (fst (loadData netTradesOnly engine0 False app0 world0))) = [''btc''] \<and>
   map amountUsd (cards (fst (loadData netTradesOnly engine0 False app0 world0))) = [Fin 150000] \<and>
   errorMessage (fst (loadData netTradesOnly engine0 False app0 world0)) = None"
proof -
  obtain tx i1 w1 where
    b: "getLargeTransactions netTradesOnly engine0 ''btc'' 20 world0 = (Inr (VTxs [tx]), w1)" and
    tx: "chain tx = ''btc''" "amountUsd tx = Fin 150000" and
    s1: "storage w1 = (\<lambda>k. None)(txCacheKey ''btc'' 20 \<mapsto> i1)"
    using netTradesOnly_btc by blast
  have "storage w1 (txCacheKey ''eth'' 20) = None"
    using s1 by (simp add: txCacheKey_20)
  then obtain i2 w2 where
    e: "getLargeTransactions netTradesOnly engine0 ''eth'' 20 w1 = (Inr (VTxs []), w2)" and
    s2: "storage w2 = (storage w1)(txCacheKey ''eth'' 20 \<mapsto> i2)"
    using getLargeTransactions_asset_down [of "''eth''" "''ETHUSDT''" netTradesOnly w1 20 engine0]
    by (auto simp: symbols_def netTradesOnly_fails baseURL_def)
  have "storage w2 (txCacheKey ''sol'' 20) = None"
    using s1 s2 by (simp add: txCacheKey_20)
  then obtain i3 w3 where
    s: "getLargeTransactions netTradesOnly engine0 ''sol'' 20 w2 = (Inr (VTxs []), w3)"
    using getLargeTransactions_asset_down [of "''sol''" "''SOLUSDT''" netTradesOnly w2 20 engine0]
    by (auto simp: symbols_def netTradesOnly_fails baseURL_def)
  have "loadData_try netTradesOnly engine0 False (showLoading (app0\<lparr>isLoading := True\<rparr>)) world0 =
      (None, renderTransactions
         (app0\<lparr>isLoading := True, visible := LoadingPanel,
            heap := (\<lambda>addr. [])(Suc 0 := [tx]), nextAddr := Suc (Suc 0),
            transactions := Suc 0, lastUpdate := Some (clock w3)\<rparr>), w3)"
    using b e s
    by (simp add: loadData_try_def BitcoinService_getLargeTransactions_def
        EthereumService_getLargeTransactions_def SolanaService_getLargeTransactions_def
        Let_def newArray_def showLoading_def app0_def fun_upd_idem)
  then show ?thesis
    using tx
    by (simp add: loadData_def app0_def renderTransactions_def newArray_def sortInPlace_def
        showTransactions_def js_sort_def Let_def)
qed

text \<open>
  C7. The claim is that \<open>loadData\<close> ends in the error state, showing the first error's
  message, when all three per-asset fetches fail. On the code, with every request
  rejected and the controller idle, \<open>loadData\<close> (forced or not) ends with the empty
  panel visible and no error shown: the adapter has turned every failure into an empty
  list, so all three promises are fulfilled and the \<open>catch\<close> of \<open>loadData\<close> is not
  reached.
\<close>

theorem loadData_network_down:
  "visible (fst (loadData netDown engine0 False app0 world0)) = EmptyPanel \<and>
   errorMessage (fst (loadData netDown engine0 False app0 world0)) = None \<and>
   visible (fst (loadData netDown engine0 True app0 world0)) = EmptyPanel \<and>
   errorMessage (fst (loadData netDown engine0 True app0 world0)) = None"
proof -
  have f: "\<forall>url opts w'. \<exists>e. fst (API_fetch netDown url opts w') = Inl e"
    using netDown_fails by blast
  have "storage world0 = (\<lambda>k. None)" "\<not> isLoading app0" "errorMessage app0 = None"
    by (simp_all add: world0_def app0_def)
  with loadData_all_fail [OF f, of False world0 app0 engine0]
    loadData_all_fail [OF f, of True world0 app0 engine0]
  show ?thesis
    by simp
qed

text \<open>
  C8. For every stored list and every chain and sort setting, \<open>renderTransactions\<close>
  works on a copy: the reference \<open>state.transactions\<close> is the same afterwards and the
  array it points to holds the same elements in the same order (indeed no array that
  existed before the call is written to), while the panel shows the view derived from the
  stored list, or the empty panel when that view is empty.
\<close>

theorem renderTransactions_frame:
  assumes "transactions a < nextAddr a"
  shows "transactions (renderTransactions a) = transactions a \<and>
         heap (renderTransactions a) (transactions a) = heap a (transactions a) \<and>
         (\<forall>addr. addr < nextAddr a \<longrightarrow> heap (renderTransactions a) addr = heap a addr) \<and>
         (if derivedView a = [] then visible (renderTransactions a) = EmptyPanel
          else visible (renderTransactions a) = TransactionsPanel \<and>
               cards (renderTransactions a) = derivedView a)"
  using assms
  by (auto simp: renderTransactions_def newArray_def sortInPlace_def showEmpty_def
      showTransactions_def derivedView_def Let_def)

theorem renderTransactions_frame_witness:
  "heap (renderTransactions app1) (transactions app1) =
     [sampleTx ''btc'' 150000 3, sampleTx ''eth'' 250000 1, sampleTx ''btc'' 400000 2,
      sampleTx ''btc'' 120000 5] \<and>
   transactions (renderTransactions app1) = transactions app1 \<and>
   visible (renderTransactions app1) = TransactionsPanel \<and>
   map amountUsd (cards (renderTransactions app1)) = [Fin 120000, Fin 150000, Fin 400000]"
proof -
  have a: "transactions app1 < nextAddr app1"
    by (simp add: app1_def app0_def)
  have v: "derivedView app1 =
      [sampleTx ''btc'' 120000 5, sampleTx ''btc'' 150000 3, sampleTx ''btc'' 400000 2]"
    by (simp add: derivedView_def app1_def app0_def js_sort_def byTime_def sampleTx_def)
  from renderTransactions_frame [OF a] v show ?thesis
    by (simp add: app1_def app0_def sampleTx_def)
qed

end
